theory Spec2Isabelle
  imports Complex_Main
begin

section \<open>Python strings\<close>

text \<open>
  The log is read with the ISO-8859-1 codec, so every character of a line is one of the
  256 code points of \<^typ>\<open>char\<close> and a line is a \<^typ>\<open>string\<close>.
\<close>

definition startswith :: "string \<Rightarrow> string \<Rightarrow> bool" where
  \<comment> \<open>\<open>s.startswith(p)\<close>\<close>
  "startswith p s = (take (length p) s = p)"

definition endswith :: "string \<Rightarrow> string \<Rightarrow> bool" where
  \<comment> \<open>\<open>s.endswith(p)\<close>\<close>
  "endswith p s = (length p \<le> length s \<and> drop (length s - length p) s = p)"

fun contains :: "string \<Rightarrow> string \<Rightarrow> bool" where
  \<comment> \<open>\<open>p in s\<close>\<close>
  "contains p [] = (p = [])"
| "contains p (c # cs) = (startswith p (c # cs) \<or> contains p cs)"

fun split_on :: "char \<Rightarrow> string \<Rightarrow> string list" where
  \<comment> \<open>\<open>s.split(sep)\<close> for a separator of one character: never the empty list\<close>
  "split_on sep [] = [[]]"
| "split_on sep (c # cs) =
     (if c = sep then [] # split_on sep cs
      else (case split_on sep cs of
              [] \<Rightarrow> [[c]]
            | w # ws \<Rightarrow> (c # w) # ws))"

definition isspace :: "char \<Rightarrow> bool" where
  \<comment> \<open>the white space of \<open>str.strip()\<close> among the first 256 code points\<close>
  "isspace c = (c \<in> set [CHR 0x09, CHR 0x0A, CHR 0x0B, CHR 0x0C, CHR 0x0D,
                          CHR 0x1C, CHR 0x1D, CHR 0x1E, CHR 0x1F, CHR 0x20,
                          CHR 0x85, CHR 0xA0])"

definition strip_where :: "(char \<Rightarrow> bool) \<Rightarrow> string \<Rightarrow> string" where
  "strip_where P s = rev (dropWhile P (rev (dropWhile P s)))"

definition strip :: "string \<Rightarrow> string" where
  \<comment> \<open>\<open>s.strip()\<close>\<close>
  "strip s = strip_where isspace s"

definition strip_quote :: "string \<Rightarrow> string" where
  \<comment> \<open>\<open>s.strip('"')\<close>\<close>
  "strip_quote s = strip_where (\<lambda>c. c = CHR 0x22) s"

section \<open>Exceptions and floats\<close>

datatype error = IndexError | KeyError | ValueError | OSError

definition bind_e :: "error + 'a \<Rightarrow> ('a \<Rightarrow> error + 'b) \<Rightarrow> error + 'b" where
  \<comment> \<open>sequencing of two statements: the first exception raised leaves the block\<close>
  "bind_e m f = (case m of Inl e \<Rightarrow> Inl e | Inr x \<Rightarrow> f x)"

text \<open>
  A float is idealised as a real number, or is the quiet \<open>nan\<close>; rounding and the
  infinities are outside the model. The ints of the source (\<open>len(data)\<close>, the literal
  \<open>0\<close>) are numbers of the same type, as Python compares and prints them.
\<close>

datatype pyfloat = Num real | NaN

fun fsub :: "pyfloat \<Rightarrow> pyfloat \<Rightarrow> pyfloat" where
  "fsub (Num a) (Num b) = Num (a - b)"
| "fsub _ _ = NaN"

fun fmul :: "pyfloat \<Rightarrow> real \<Rightarrow> pyfloat" where
  "fmul (Num a) b = Num (a * b)"
| "fmul NaN b = NaN"

fun fdiv :: "pyfloat \<Rightarrow> pyfloat \<Rightarrow> pyfloat" where
  \<comment> \<open>every division of the source has a divisor that is not zero\<close>
  "fdiv (Num a) (Num b) = Num (a / b)"
| "fdiv _ _ = NaN"

fun fpos :: "pyfloat \<Rightarrow> bool" where
  \<comment> \<open>\<open>x > 0\<close>, false for \<open>nan\<close>\<close>
  "fpos (Num a) = (0 < a)"
| "fpos NaN = False"

section \<open>Data frames and series\<close>

text \<open>
  \<open>pd.DataFrame(rows)\<close> of a list of lists of strings has the columns
  \<open>0 .. m - 1\<close> for \<open>m\<close> the length of the longest row; a shorter row is padded
  with \<open>None\<close>. The frame is modelled as the list of rows it was built from.
\<close>

type_synonym frame = "string list list"

definition ncols :: "frame \<Rightarrow> nat" where
  "ncols data = foldr (\<lambda>row m. max (length row) m) data 0"

definition cells :: "frame \<Rightarrow> nat \<Rightarrow> string option list" where
  "cells data k = map (\<lambda>row. if k < length row then Some (row ! k) else None) data"

definition getitem :: "frame \<Rightarrow> nat \<Rightarrow> error + string option list" where
  \<comment> \<open>\<open>data[k]\<close>, by column label\<close>
  "getitem data k = (if k < ncols data then Inr (cells data k) else Inl KeyError)"

definition iloc :: "frame \<Rightarrow> nat \<Rightarrow> error + string option list" where
  \<comment> \<open>\<open>data.iloc[:, k]\<close>, by column position\<close>
  "iloc data k = (if k < ncols data then Inr (cells data k) else Inl IndexError)"

text \<open>
  \<open>.astype(float)\<close> applies Python's \<open>float\<close> to every string of the column and
  turns \<open>None\<close> into \<open>nan\<close>. The conversion of one string is the parameter \<open>tf\<close>
  of the model: \<open>tf s = None\<close> when \<open>float(s)\<close> raises ValueError, and otherwise
  the number read.
\<close>

fun astype_float :: "(string \<Rightarrow> real option) \<Rightarrow> string option list \<Rightarrow> error + pyfloat list" where
  "astype_float tf [] = Inr []"
| "astype_float tf (None # cs) = bind_e (astype_float tf cs) (\<lambda>vs. Inr (NaN # vs))"
| "astype_float tf (Some s # cs) =
     (case tf s of
        None \<Rightarrow> Inl ValueError
      | Some v \<Rightarrow> bind_e (astype_float tf cs) (\<lambda>vs. Inr (Num v # vs)))"

fun dropna :: "pyfloat list \<Rightarrow> real list" where
  "dropna [] = []"
| "dropna (Num v # vs) = v # dropna vs"
| "dropna (NaN # vs) = dropna vs"

text \<open>The reductions of a series skip \<open>nan\<close>, as pandas does by default.\<close>

definition series_sum :: "pyfloat list \<Rightarrow> pyfloat" where
  "series_sum col = Num (sum_list (dropna col))"

definition series_min :: "pyfloat list \<Rightarrow> pyfloat" where
  "series_min col = (case dropna col of [] \<Rightarrow> NaN | v # vs \<Rightarrow> Num (fold min vs v))"

definition series_max :: "pyfloat list \<Rightarrow> pyfloat" where
  "series_max col = (case dropna col of [] \<Rightarrow> NaN | v # vs \<Rightarrow> Num (fold max vs v))"

definition series_mean :: "pyfloat list \<Rightarrow> pyfloat" where
  "series_mean col =
     (case dropna col of [] \<Rightarrow> NaN | v # vs \<Rightarrow> Num (sum_list (v # vs) / real (length (v # vs))))"

text \<open>
  \<open>.quantile(q)\<close> with the default linear interpolation, as numpy computes it: on the
  sorted values that are not \<open>nan\<close>, the virtual index is \<open>q * (n - 1)\<close>, the two
  neighbours are at its floor and at the next position (clipped to the last one), and
  the result moves from the first to the second by the fractional part.
\<close>

definition quantile :: "real \<Rightarrow> pyfloat list \<Rightarrow> pyfloat" where
  "quantile q col =
     (let vs = sort (dropna col); n = length vs in
      if n = 0 then NaN
      else (let h = q * real (n - 1);
                lo = nat \<lfloor>h\<rfloor>;
                hi = min (lo + 1) (n - 1);
                g = h - real lo
            in Num (vs ! lo + (vs ! hi - vs ! lo) * g)))"

definition series_sub :: "pyfloat list \<Rightarrow> pyfloat list \<Rightarrow> pyfloat list" where
  \<comment> \<open>the difference of two columns of one frame\<close>
  "series_sub xs ys = map (\<lambda>(x, y). fsub x y) (zip xs ys)"

definition series_div :: "pyfloat list \<Rightarrow> real \<Rightarrow> pyfloat list" where
  "series_div xs d = map (\<lambda>x. fdiv x (Num d)) xs"

section \<open>The metric reducers\<close>

definition float_col :: "(string \<Rightarrow> real option) \<Rightarrow> frame \<Rightarrow> nat \<Rightarrow> error + pyfloat list" where
  \<comment> \<open>\<open>data[k].astype(float)\<close>\<close>
  "float_col tf data k = bind_e (getitem data k) (astype_float tf)"

definition float_iloc :: "(string \<Rightarrow> real option) \<Rightarrow> frame \<Rightarrow> nat \<Rightarrow> error + pyfloat list" where
  \<comment> \<open>\<open>data.iloc[:, k].astype(float)\<close>\<close>
  "float_iloc tf data k = bind_e (iloc data k) (astype_float tf)"

definition zeros :: "nat \<Rightarrow> pyfloat list" where
  "zeros n = replicate n (Num 0)"

definition finish_metrics ::
  "nat \<Rightarrow> pyfloat \<Rightarrow> pyfloat \<Rightarrow> pyfloat \<Rightarrow> pyfloat \<Rightarrow> pyfloat \<Rightarrow> pyfloat \<Rightarrow> pyfloat \<Rightarrow> pyfloat \<Rightarrow> pyfloat
     \<Rightarrow> pyfloat list" where
  \<comment> \<open>the last three statements of both reducers (\<open>tot\<close> is the source's \<open>total\<close>)\<close>
  "finish_metrics count tot max_cpu min_cpu VP E poolCPU poolIdle W cap =
     (let avg = (if count > 0 then fdiv tot (Num (real count)) else Num 0);
          vp_e_ratio = (if fpos E then fmul (fdiv VP E) 100 else Num 0)
      in [Num (real count), VP, E, vp_e_ratio, poolCPU, poolIdle, W, cap,
          tot, min_cpu, avg, max_cpu])"

definition aix_metrics_try :: "(string \<Rightarrow> real option) \<Rightarrow> frame \<Rightarrow> error + pyfloat list" where
  \<comment> \<open>the \<open>try\<close> block of \<open>calculate_aix_metrics\<close>; column 2 is converted three times
      there, with one outcome\<close>
  "aix_metrics_try tf data =
     bind_e (float_col tf data 2) (\<lambda>c2.
     bind_e (float_col tf data 3) (\<lambda>c3.
     bind_e (float_col tf data 6) (\<lambda>c6.
     bind_e (float_col tf data 5) (\<lambda>c5.
     bind_e (float_col tf data 8) (\<lambda>c8.
     bind_e (float_col tf data 7) (\<lambda>c7.
     bind_e (float_col tf data 12) (\<lambda>c12.
       Inr (finish_metrics (length data) (series_sum c2) (series_max c2) (series_min c2)
              (series_min c3) (series_min c6) (series_min c5) (series_min c8)
              (series_min c7) (series_min c12)))))))))"

definition calculate_aix_metrics :: "(string \<Rightarrow> real option) \<Rightarrow> frame \<Rightarrow> pyfloat list" where
  "calculate_aix_metrics tf data =
     (case aix_metrics_try tf data of Inr t \<Rightarrow> t | Inl e \<Rightarrow> zeros 12)"

definition linux_metrics_try :: "(string \<Rightarrow> real option) \<Rightarrow> frame \<Rightarrow> error + pyfloat list" where
  \<comment> \<open>the \<open>try\<close> block of \<open>calculate_linux_metrics\<close>\<close>
  "linux_metrics_try tf data =
     bind_e (float_col tf data 2) (\<lambda>c2.
     bind_e (float_col tf data 13) (\<lambda>c13.
     bind_e (float_col tf data 10) (\<lambda>c10.
     bind_e (float_col tf data 8) (\<lambda>c8.
     bind_e (float_col tf data 21) (\<lambda>c21.
     bind_e (float_col tf data 16) (\<lambda>c16.
     bind_e (float_col tf data 4) (\<lambda>c4.
       Inr (finish_metrics (length data) (series_sum c2) (series_max c2) (series_min c2)
              (series_sum c13) (series_sum c10) (series_sum (series_div c8 100))
              (series_sum c21) (series_sum c16) (series_sum c4)))))))))"

definition calculate_linux_metrics :: "(string \<Rightarrow> real option) \<Rightarrow> frame \<Rightarrow> pyfloat list" where
  "calculate_linux_metrics tf data =
     (case linux_metrics_try tf data of Inr t \<Rightarrow> t | Inl e \<Rightarrow> zeros 12)"

datatype os = AIX | Linux

definition memory_metrics_try :: "(string \<Rightarrow> real option) \<Rightarrow> frame \<Rightarrow> os \<Rightarrow> error + pyfloat list" where
  \<comment> \<open>the \<open>try\<close> block of \<open>calculate_memory_metrics\<close>\<close>
  "memory_metrics_try tf mem_df os_type =
     bind_e (if os_type = AIX
             then bind_e (float_iloc tf mem_df 6) (\<lambda>a.
                  bind_e (float_iloc tf mem_df 4) (\<lambda>b. Inr (series_sub a b)))
             else bind_e (float_iloc tf mem_df 2) (\<lambda>a.
                  bind_e (float_iloc tf mem_df 7) (\<lambda>b. Inr (series_sub a b))))
       (\<lambda>used.
          (let min_used = fdiv (series_min used) (Num 1024);
               avg_used = fdiv (series_mean used) (Num 1024);
               max_used = fdiv (series_max used) (Num 1024);
               percentile_used = fdiv (quantile (95 / 100) used) (Num 1024)
           in Inr [Num (real (length mem_df)), min_used, avg_used, max_used, percentile_used]))"

definition calculate_memory_metrics :: "(string \<Rightarrow> real option) \<Rightarrow> frame \<Rightarrow> os \<Rightarrow> pyfloat list" where
  "calculate_memory_metrics tf mem_df os_type =
     (case memory_metrics_try tf mem_df os_type of Inr t \<Rightarrow> t | Inl e \<Rightarrow> zeros 5)"

text \<open>
  What the functions print: a warning with its whole text, or the text in front of an
  exception and the exception (its own text is the library's).
\<close>

datatype message = Warn string | Err string error

definition aix_metrics_prints :: "(string \<Rightarrow> real option) \<Rightarrow> frame \<Rightarrow> message list" where
  "aix_metrics_prints tf data =
     (case aix_metrics_try tf data of
        Inr t \<Rightarrow> [] | Inl e \<Rightarrow> [Err ''Error calculating AIX metrics: '' e])"

definition linux_metrics_prints :: "(string \<Rightarrow> real option) \<Rightarrow> frame \<Rightarrow> message list" where
  "linux_metrics_prints tf data =
     (case linux_metrics_try tf data of
        Inr t \<Rightarrow> [] | Inl e \<Rightarrow> [Err ''Error calculating Linux metrics: '' e])"

definition memory_metrics_prints :: "(string \<Rightarrow> real option) \<Rightarrow> frame \<Rightarrow> os \<Rightarrow> message list" where
  "memory_metrics_prints tf mem_df os_type =
     (case memory_metrics_try tf mem_df os_type of
        Inr t \<Rightarrow> [] | Inl e \<Rightarrow> [Err ''Error calculating memory metrics: '' e])"

section \<open>The header lines\<close>

definition index :: "'a list \<Rightarrow> nat \<Rightarrow> error + 'a" where
  \<comment> \<open>\<open>xs[i]\<close> for an index that is not negative\<close>
  "index xs i = (if i < length xs then Inr (xs ! i) else Inl IndexError)"

definition after_colon :: "string \<Rightarrow> string" where
  \<comment> \<open>\<open>line.split(":")[-1].strip().strip('"')\<close>; the split is never empty\<close>
  "after_colon line = strip_quote (strip (last (split_on (CHR '':'') line)))"

definition parse_system_info :: "string \<Rightarrow> (string \<rightharpoonup> string) \<Rightarrow> error + (string \<rightharpoonup> string)" where
  "parse_system_info line system_info =
     (if contains ''AAA,date'' line then
        bind_e (index (split_on (CHR '','') line) 2) (\<lambda>v.
          Inr (system_info(''Date'' \<mapsto> v)))
      else if contains ''lparname'' line then
        bind_e (index (split_on (CHR '','') line) 3) (\<lambda>v.
          Inr (system_info(''LPAR Name'' \<mapsto> strip v)))
      else if contains ''System Model:'' line then
        bind_e (index (split_on (CHR '','') (after_colon line)) 1) (\<lambda>v.
          Inr (system_info(''System Model'' \<mapsto> v)))
      else if contains ''Machine Serial Number:'' line then
        Inr (system_info(''Machine Serial Number'' \<mapsto> after_colon line))
      else if contains ''Processor Type:'' line then
        bind_e (index (split_on (CHR ''_'') (after_colon line)) 1) (\<lambda>v.
          Inr (system_info(''Processor Type'' \<mapsto> v)))
      else Inr system_info)"

definition get_info :: "(string \<rightharpoonup> string) \<Rightarrow> string \<Rightarrow> string" where
  \<comment> \<open>\<open>system_info.get(key, "N/A")\<close>\<close>
  "get_info system_info key = (case system_info key of None \<Rightarrow> ''N/A'' | Some v \<Rightarrow> v)"

section \<open>The scan of one file\<close>

record scan =
  os_type :: os
  lpar_data :: frame
  proc_data :: frame
  mem_data :: frame
  system_info :: "string \<rightharpoonup> string"
  printed :: "message list"

definition init_scan :: scan where
  "init_scan = \<lparr>os_type = Linux, lpar_data = [], proc_data = [], mem_data = [],
                 system_info = Map.empty, printed = []\<rparr>"

definition classify_line :: "string \<Rightarrow> scan \<Rightarrow> error + scan" where
  \<comment> \<open>the body of the loop over the lines\<close>
  "classify_line line st =
     (if startswith ''AAA,AIX'' line then Inr (st\<lparr>os_type := AIX\<rparr>)
      else if startswith ''LPAR,T'' line then
        (let parts = split_on (CHR '','') (strip line) in
         if length parts \<ge> 14 then Inr (st\<lparr>lpar_data := lpar_data st @ [parts]\<rparr>)
         else Inr (st\<lparr>printed := printed st @
                     [Warn (''Warning: LPAR line has unexpected format: '' @ strip line)]\<rparr>))
      else if startswith ''PROC,T'' line then
        (let parts = split_on (CHR '','') (strip line) in
         if length parts \<ge> 3 then Inr (st\<lparr>proc_data := proc_data st @ [parts]\<rparr>)
         else Inr (st\<lparr>printed := printed st @
                     [Warn (''Warning: PROC line has unexpected format: '' @ strip line)]\<rparr>))
      else if startswith ''MEM,T'' line then
        (let parts = split_on (CHR '','') (strip line) in
         if length parts \<ge> 8 then Inr (st\<lparr>mem_data := mem_data st @ [parts]\<rparr>)
         else Inr st)
      else bind_e (parse_system_info line (system_info st)) (\<lambda>info.
             Inr (st\<lparr>system_info := info\<rparr>)))"

fun scan_lines :: "string list \<Rightarrow> scan \<Rightarrow> (message list \<times> error) + scan" where
  \<comment> \<open>the loop; an exception leaves it with what was printed before\<close>
  "scan_lines [] st = Inr st"
| "scan_lines (line # rest) st =
     (case classify_line line st of
        Inl e \<Rightarrow> Inl (printed st, e)
      | Inr st' \<Rightarrow> scan_lines rest st')"

section \<open>The result of one file\<close>

datatype pyval = Str string | Flt pyfloat

definition run_queue :: "(string \<Rightarrow> real option) \<Rightarrow> frame \<Rightarrow> error + pyfloat" where
  \<comment> \<open>\<open>rq\<close>: \<open>nan\<close> unless there is a PROC record\<close>
  "run_queue tf proc_data' =
     (if proc_data' \<noteq> []
      then bind_e (float_iloc tf proc_data' 2) (\<lambda>c. Inr (quantile (95 / 100) c))
      else Inr NaN)"

definition cpu_percentile :: "(string \<Rightarrow> real option) \<Rightarrow> os \<Rightarrow> frame \<Rightarrow> error + pyfloat" where
  \<comment> \<open>\<open>percentile_cpu\<close>\<close>
  "cpu_percentile tf os_type' lpar_df =
     (let cpu_usage_col_index = (if os_type' = AIX then 2 else 10) in
      bind_e (float_iloc tf lpar_df cpu_usage_col_index) (\<lambda>cpu_usage.
        Inr (quantile (95 / 100) cpu_usage)))"

definition metrics_func :: "os \<Rightarrow> (string \<Rightarrow> real option) \<Rightarrow> frame \<Rightarrow> pyfloat list" where
  "metrics_func os_type' = (if os_type' = AIX then calculate_aix_metrics else calculate_linux_metrics)"

definition metrics_prints :: "os \<Rightarrow> (string \<Rightarrow> real option) \<Rightarrow> frame \<Rightarrow> message list" where
  "metrics_prints os_type' = (if os_type' = AIX then aix_metrics_prints else linux_metrics_prints)"

definition file_result ::
  "(string \<rightharpoonup> string) \<Rightarrow> pyfloat list \<Rightarrow> pyfloat \<Rightarrow> pyfloat \<Rightarrow> pyfloat list \<Rightarrow> pyval list" where
  \<comment> \<open>the tuple returned\<close>
  "file_result info metrics percentile_cpu rq memory_metrics =
     [Str (get_info info ''Date''), Str (get_info info ''LPAR Name''),
      Str (get_info info ''System Model''), Str (get_info info ''Machine Serial Number''),
      Str (get_info info ''Processor Type'')]
     @ map Flt metrics @ [Flt percentile_cpu, Flt rq] @ map Flt memory_metrics"

definition after_scan ::
  "(string \<Rightarrow> real option) \<Rightarrow> string \<Rightarrow> scan \<Rightarrow> message list \<times> (error + pyval list option)" where
  \<comment> \<open>the \<open>try\<close> block after the loop: what it prints, and whether it raises, returns
      \<open>None\<close> or returns the tuple\<close>
  "after_scan tf file_path st =
     (if lpar_data st = [] then
        ([Warn (''Warning: No LPAR data found in '' @ file_path)], Inr None)
      else
        (let metrics = metrics_func (os_type st) tf (lpar_data st);
             out = metrics_prints (os_type st) tf (lpar_data st)
         in case run_queue tf (proc_data st) of
              Inl e \<Rightarrow> (out, Inl e)
            | Inr rq \<Rightarrow>
               (case cpu_percentile tf (os_type st) (lpar_data st) of
                  Inl e \<Rightarrow> (out, Inl e)
                | Inr percentile_cpu \<Rightarrow>
                   (out @ memory_metrics_prints tf (mem_data st) (os_type st),
                    Inr (Some (file_result (system_info st) metrics percentile_cpu rq
                           (calculate_memory_metrics tf (mem_data st) (os_type st))))))))"

definition process_nmon_file ::
  "(string \<Rightarrow> real option) \<Rightarrow> string \<Rightarrow> string list option \<Rightarrow> message list \<times> pyval list option" where
  \<comment> \<open>\<open>contents\<close> is what \<open>readlines\<close> gives, or \<open>None\<close> when the file cannot be read;
      the result is what is printed and what is returned\<close>
  "process_nmon_file tf file_path contents =
     (let caught = (\<lambda>e. Err (''Error processing '' @ file_path @ '': '') e) in
      case contents of
        None \<Rightarrow> ([caught OSError], None)
      | Some lines \<Rightarrow>
         (case scan_lines lines init_scan of
            Inl (out, e) \<Rightarrow> (out @ [caught e], None)
          | Inr st \<Rightarrow>
             (case after_scan tf file_path st of
                (out, Inl e) \<Rightarrow> (printed st @ out @ [caught e], None)
              | (out, Inr r) \<Rightarrow> (printed st @ out, r))))"

section \<open>The table\<close>

definition columns :: "string list" where
  "columns =
     [''nmonfile'', ''Date'', ''LPAR Name'', ''System Model'', ''Machine Serial Number'',
      ''Processor Type'', ''Snapshots'', ''VP'', ''Entitled CPU'', ''VP:E'', ''Pool CPU'',
      ''Pool Idle'', ''Weight'', ''Capped'', ''Total CPU'', ''Min CPU'', ''Avg CPU'', ''Max CPU'',
      ''95 Percentile CPU'', ''Run Queue 95'', ''Count Mem'', ''Mim MEM Used'', ''Avg MEM Used'',
      ''Max MEM Used'', ''95 percentile GB'']"

definition folder_path :: string where
  "folder_path = ''./NMON_Reports/''"

definition file_rows :: "(string \<Rightarrow> real option) \<Rightarrow> string \<times> string list option \<Rightarrow> pyval list list" where
  \<comment> \<open>the body of the loop of \<open>main\<close> over the directory: the rows one entry adds\<close>
  "file_rows tf entry =
     (case entry of (filename, contents) \<Rightarrow>
        if endswith ''.nmon'' filename then
          (case snd (process_nmon_file tf (folder_path @ filename) contents) of
             None \<Rightarrow> []
           | Some result \<Rightarrow> if result \<noteq> [] then [Str filename # result] else [])
        else [])"

definition all_results :: "(string \<Rightarrow> real option) \<Rightarrow> (string \<times> string list option) list \<Rightarrow> pyval list list" where
  "all_results tf listing = concat (map (file_rows tf) listing)"

definition results_df ::
  "(string \<Rightarrow> real option) \<Rightarrow> (string \<times> string list option) list
     \<Rightarrow> error + (string list \<times> pyval list list)" where
  \<comment> \<open>\<open>pd.DataFrame(all_results, columns=columns)\<close>: a row of another width raises\<close>
  "results_df tf listing =
     (let rows = all_results tf listing in
      if list_all (\<lambda>row. length row = length columns) rows then Inr (columns, rows)
      else Inl ValueError)"

section \<open>A conversion for the examples\<close>

text \<open>
  The part of Python's \<open>float\<close> that reads a decimal numeral: an optional sign, digits,
  and at most one point, with a digit on one side of it at least.
\<close>

definition digit :: "char \<Rightarrow> nat option" where
  "digit c = (let n = (of_char c :: nat) in if 48 \<le> n \<and> n \<le> 57 then Some (n - 48) else None)"

fun digits :: "string \<Rightarrow> nat \<Rightarrow> nat option" where
  "digits [] acc = Some acc"
| "digits (c # cs) acc = (case digit c of None \<Rightarrow> None | Some d \<Rightarrow> digits cs (10 * acc + d))"

definition unsigned_decimal :: "string \<Rightarrow> real option" where
  "unsigned_decimal s =
     (let ip = takeWhile (\<lambda>c. c \<noteq> CHR ''.'') s;
          fp = drop 1 (dropWhile (\<lambda>c. c \<noteq> CHR ''.'') s)
      in if ip = [] \<and> fp = [] then None
         else (case (digits ip 0, digits fp 0) of
                 (Some a, Some b) \<Rightarrow> Some (real a + real b / 10 ^ length fp)
               | _ \<Rightarrow> None))"

definition decimal :: "string \<Rightarrow> real option" where
  "decimal s =
     (case s of
        [] \<Rightarrow> None
      | c # cs \<Rightarrow>
          if c = CHR ''-'' then map_option uminus (unsigned_decimal cs)
          else if c = CHR ''+'' then unsigned_decimal cs
          else unsigned_decimal s)"

section \<open>Notions used in the statements\<close>

text \<open>
  The definitions of this section are not functions of the source: they name what the
  statements below speak about (the records a scan keeps, the rank interpolation of the
  specification, the column names of the specification) and the inputs of the examples.
\<close>

text \<open>A column that converts: the number of each cell, \<open>nan\<close> for a padded one.\<close>

definition to_num :: "(string \<Rightarrow> real option) \<Rightarrow> string option \<Rightarrow> pyfloat" where
  "to_num tf c = (case c of None \<Rightarrow> NaN | Some s \<Rightarrow> Num (the (tf s)))"

definition num_cells :: "(string \<Rightarrow> real option) \<Rightarrow> frame \<Rightarrow> nat \<Rightarrow> pyfloat list" where
  "num_cells tf data k = map (to_num tf) (cells data k)"

definition col_ok :: "(string \<Rightarrow> real option) \<Rightarrow> frame \<Rightarrow> nat \<Rightarrow> bool" where
  "col_ok tf data k = (\<forall>row\<in>set data. k < length row \<longrightarrow> tf (row ! k) \<noteq> None)"

text \<open>
  The records of one kind that a scan keeps: the lines with the tag in front, stripped
  and split at the commas, that have \<open>n\<close> fields at least, in the order of the file.
\<close>

definition retained :: "string \<Rightarrow> nat \<Rightarrow> string list \<Rightarrow> frame" where
  "retained tag n lines =
     filter (\<lambda>parts. n \<le> length parts)
       (map (\<lambda>line. split_on (CHR '','') (strip line)) (filter (startswith tag) lines))"

text \<open>
  A line that goes to \<open>parse_system_info\<close>, and a line on which it indexes past
  the end of a split.
\<close>

definition header_line :: "string \<Rightarrow> bool" where
  "header_line line = (\<not> startswith ''AAA,AIX'' line \<and> \<not> startswith ''LPAR,T'' line
      \<and> \<not> startswith ''PROC,T'' line \<and> \<not> startswith ''MEM,T'' line)"

definition malformed_header :: "string \<Rightarrow> bool" where
  "malformed_header line =
     (if contains ''AAA,date'' line then length (split_on (CHR '','') line) < 3
      else if contains ''lparname'' line then length (split_on (CHR '','') line) < 4
      else if contains ''System Model:'' line then length (split_on (CHR '','') (after_colon line)) < 2
      else if contains ''Machine Serial Number:'' line then False
      else if contains ''Processor Type:'' line then length (split_on (CHR ''_'') (after_colon line)) < 2
      else False)"

text \<open>The flavour of a file: AIX when one of its lines is the AIX signature.\<close>

definition file_os :: "string list \<Rightarrow> os" where
  "file_os lines = (if \<exists>line\<in>set lines. startswith ''AAA,AIX'' line then AIX else Linux)"

text \<open>
  The percentile as the specification words it: on the sorted sample, the rank is
  \<open>r = p * (n - 1)\<close>, and the result lies between the values at the floor and at
  the ceiling of \<open>r\<close>, at the fractional part of \<open>r\<close>.
\<close>

definition percentile_spec :: "real \<Rightarrow> real list \<Rightarrow> real" where
  "percentile_spec p xs =
     (let s = sort xs;
          r = p * real (length xs - 1);
          i = nat \<lfloor>r\<rfloor>;
          j = nat \<lceil>r\<rceil>
      in s ! i + (s ! j - s ! i) * frac r)"

text \<open>Inputs of the examples.\<close>

definition ex_lpar1 :: string where
  "ex_lpar1 = ''LPAR,T0001,10,2,0,4,1.5,128,3,0,0,0,1,0''"

definition ex_lpar2 :: string where
  "ex_lpar2 = ''LPAR,T0002,20,2,0,4,1.5,128,3,0,0,0,1,0''"

definition ex_late_aix :: "string list" where
  "ex_late_aix = [ex_lpar1 @ [CHR 0x0A], ex_lpar2 @ [CHR 0x0A], ''AAA,AIX,host'' @ [CHR 0x0A]]"

definition ex_linux :: "string list" where
  "ex_linux = [ex_lpar1 @ [CHR 0x0A], ex_lpar2 @ [CHR 0x0A]]"

definition ex_no_lpar :: "string list" where
  "ex_no_lpar = [''AAA,AIX,host'' @ [CHR 0x0A], ''LPAR,T0001,10,2'' @ [CHR 0x0A],
                 ''PROC,T0001,3'' @ [CHR 0x0A]]"

definition ex_bad_row :: "string list" where
  "ex_bad_row = split_on (CHR '','') ''LPAR,T0001,n/a,2,0,4,1.5,128,3,0,0,0,1,0''"

definition ex_proc_zero :: "string list" where
  "ex_proc_zero = [''AAA,AIX,host'' @ [CHR 0x0A], ex_lpar1 @ [CHR 0x0A], ''PROC,T0001,0'' @ [CHR 0x0A]]"

text \<open>
  The used memory of one MEM record, for a record whose two fields convert.
\<close>

definition mem_used :: "(string \<Rightarrow> real option) \<Rightarrow> os \<Rightarrow> string list \<Rightarrow> real" where
  "mem_used tf os_type' row =
     (if os_type' = AIX then the (tf (row ! 6)) - the (tf (row ! 4))
      else the (tf (row ! 2)) - the (tf (row ! 7)))"

definition ex_percentile :: "string list" where
  "ex_percentile = map (\<lambda>l. l @ [CHR 0x0A])
     [''AAA,AIX,host'',
      ''LPAR,T0001,30,2,0,4,1.5,128,3,0,0,0,1,0'',
      ''LPAR,T0002,10,2,0,4,1.5,128,3,0,0,0,1,0'',
      ''LPAR,T0003,50,2,0,4,1.5,128,3,0,0,0,1,0'',
      ''LPAR,T0004,20,2,0,4,1.5,128,3,0,0,0,1,0'',
      ''LPAR,T0005,40,2,0,4,1.5,128,3,0,0,0,1,0'',
      ''PROC,T0001,30,0'', ''PROC,T0002,10,0'', ''PROC,T0003,50,0'',
      ''PROC,T0004,20,0'', ''PROC,T0005,40,0'',
      ''MEM,T0001,0,0,100,0,130,0'', ''MEM,T0002,0,0,100,0,110,0'',
      ''MEM,T0003,0,0,100,0,150,0'', ''MEM,T0004,0,0,100,0,120,0'',
      ''MEM,T0005,0,0,100,0,140,0'']"

definition ex_mem_const :: frame where
  "ex_mem_const = map (split_on (CHR '','')) 
     [''MEM,T0001,4096,0,0,0,0,2048'', ''MEM,T0002,3072,0,0,0,0,1024'', ''MEM,T0003,2048,0,0,0,0,0'']"

definition ex_header_only :: "string list" where
  "ex_header_only = [''AAA,lparname'' @ [CHR 0x0A]]"

definition ex_mem_bad :: "string list" where
  "ex_mem_bad = [''MEM,T0001,n/a,0,0,0,0,0'' @ [CHR 0x0A]]"

text \<open>The two warnings that the loop over the lines prints.\<close>

definition scan_warning :: "message \<Rightarrow> bool" where
  "scan_warning m =
     (case m of
        Warn s \<Rightarrow> startswith ''Warning: LPAR line has unexpected format: '' s
                  \<or> startswith ''Warning: PROC line has unexpected format: '' s
      | Err s e \<Rightarrow> False)"

text \<open>The column names as the specification lists them.\<close>

definition spec_columns :: "string list" where
  "spec_columns =
     [''nmonfile'', ''Date'', ''LPAR Name'', ''System Model'', ''Machine Serial Number'',
      ''Processor Type'', ''Snapshots'', ''VP'', ''Entitled CPU'', ''VP:E'', ''Pool CPU'',
      ''Pool Idle'', ''Weight'', ''Capped'', ''Total CPU'', ''Min CPU'', ''Avg CPU'', ''Max CPU'',
      ''95 Percentile CPU'', ''Run Queue 95'', ''Count Mem'', ''Min MEM Used'', ''Avg MEM Used'',
      ''Max MEM Used'', ''95 percentile GB'']"



definition ex_short_lparname :: "string list" where
  "ex_short_lparname = ex_linux @ [''BBBL,lparname'' @ [CHR 0x0A]]"

definition ex_short_model :: "string list" where
  "ex_short_model = ex_linux @ [''BBBP,001,System Model: IBM'' @ [CHR 0x0A]]"

section \<open>Auxiliary facts\<close>

lemma bind_e_Inr_iff: "bind_e m f = Inr y \<longleftrightarrow> (\<exists>x. m = Inr x \<and> f x = Inr y)"
  by (cases m) (simp_all add: bind_e_def)

lemma bind_e_Inl_iff: "bind_e m f = Inl e \<longleftrightarrow> m = Inl e \<or> (\<exists>x. m = Inr x \<and> f x = Inl e)"
  by (cases m) (simp_all add: bind_e_def)

lemma bind_e_simps [simp]: "bind_e (Inl e) f = Inl e" "bind_e (Inr x) f = f x"
  by (simp_all add: bind_e_def)

lemma astype_float_Inr:
  "(\<forall>s. Some s \<in> set cs \<longrightarrow> tf s \<noteq> None) \<Longrightarrow> astype_float tf cs = Inr (map (to_num tf) cs)"
  by (induction tf cs rule: astype_float.induct) (auto simp: to_num_def)

lemma astype_float_Inl:
  "Some s \<in> set cs \<Longrightarrow> tf s = None \<Longrightarrow> astype_float tf cs = Inl ValueError"
  by (induction tf cs rule: astype_float.induct) (auto simp: bind_e_Inl_iff split: option.splits)

lemma astype_float_cases:
  "astype_float tf cs = (if \<forall>s. Some s \<in> set cs \<longrightarrow> tf s \<noteq> None then Inr (map (to_num tf) cs) else Inl ValueError)"
  using astype_float_Inr astype_float_Inl by (metis (full_types))

lemma ncols_less_iff: "k < ncols data \<longleftrightarrow> (\<exists>row\<in>set data. k < length row)"
  by (induction data) (auto simp: ncols_def)

lemma Some_in_cells_iff: "Some s \<in> set (cells data k) \<longleftrightarrow> (\<exists>row\<in>set data. k < length row \<and> row ! k = s)"
  by (auto simp: cells_def)

lemma float_col_cases:
  "float_col tf data k =
     (if k < ncols data then (if col_ok tf data k then Inr (num_cells tf data k) else Inl ValueError)
      else Inl KeyError)"
  by (auto simp: float_col_def getitem_def astype_float_cases Some_in_cells_iff num_cells_def col_ok_def)

lemma float_iloc_cases:
  "float_iloc tf data k =
     (if k < ncols data then (if col_ok tf data k then Inr (num_cells tf data k) else Inl ValueError)
      else Inl IndexError)"
  by (auto simp: float_iloc_def iloc_def astype_float_cases Some_in_cells_iff num_cells_def col_ok_def)

lemma length_finish_metrics [simp]: "length (finish_metrics n a b c d e f g h i) = 12"
  by (simp add: finish_metrics_def Let_def)

lemma aix_try_length: "aix_metrics_try tf data = Inr t \<Longrightarrow> length t = 12"
  by (auto simp: aix_metrics_try_def bind_e_Inr_iff)

lemma linux_try_length: "linux_metrics_try tf data = Inr t \<Longrightarrow> length t = 12"
  by (auto simp: linux_metrics_try_def bind_e_Inr_iff)

lemma length_zeros [simp]: "length (zeros n) = n"
  by (simp add: zeros_def)

lemma length_aix [simp]: "length (calculate_aix_metrics tf data) = 12"
  by (auto simp: calculate_aix_metrics_def aix_try_length split: sum.splits)

lemma length_linux [simp]: "length (calculate_linux_metrics tf data) = 12"
  by (auto simp: calculate_linux_metrics_def linux_try_length split: sum.splits)

lemma length_memory [simp]: "length (calculate_memory_metrics tf data os) = 5"
  by (auto simp: calculate_memory_metrics_def memory_metrics_try_def bind_e_Inr_iff Let_def split: sum.splits)

lemma length_metrics_func [simp]: "length (metrics_func os tf data) = 12"
  by (simp add: metrics_func_def)

lemma aix_try_Inl:
  "k \<in> {2, 3, 5, 6, 7, 8, 12} \<Longrightarrow> float_col tf data k = Inl e \<Longrightarrow> \<exists>e'. aix_metrics_try tf data = Inl e'"
  unfolding aix_metrics_try_def
  apply (cases "float_col tf data 2"; simp)
  apply (cases "float_col tf data 3"; simp)
  apply (cases "float_col tf data 6"; simp)
  apply (cases "float_col tf data 5"; simp)
  apply (cases "float_col tf data 8"; simp)
  apply (cases "float_col tf data 7"; simp)
  apply (cases "float_col tf data 12"; simp)
  apply auto
  done

lemma linux_try_Inl:
  "k \<in> {2, 13, 10, 8, 21, 16, 4} \<Longrightarrow> float_col tf data k = Inl e \<Longrightarrow> \<exists>e'. linux_metrics_try tf data = Inl e'"
  unfolding linux_metrics_try_def
  apply (cases "float_col tf data 2"; simp)
  apply (cases "float_col tf data 13"; simp)
  apply (cases "float_col tf data 10"; simp)
  apply (cases "float_col tf data 8"; simp)
  apply (cases "float_col tf data 21"; simp)
  apply (cases "float_col tf data 16"; simp)
  apply (cases "float_col tf data 4"; simp)
  apply auto
  done

lemma tags_disjoint:
  "startswith ''LPAR,T'' l \<Longrightarrow> \<not> startswith ''AAA,AIX'' l"
  "startswith ''PROC,T'' l \<Longrightarrow> \<not> startswith ''AAA,AIX'' l \<and> \<not> startswith ''LPAR,T'' l"
  "startswith ''MEM,T'' l \<Longrightarrow> \<not> startswith ''AAA,AIX'' l \<and> \<not> startswith ''LPAR,T'' l \<and> \<not> startswith ''PROC,T'' l"
  by (cases l; simp add: startswith_def)+

lemma index_Inl_iff: "index xs i = Inl e \<longleftrightarrow> e = IndexError \<and> length xs \<le> i"
  by (auto simp: index_def)

lemma parse_system_info_Inl_iff:
  "parse_system_info line info = Inl e \<longleftrightarrow> e = IndexError \<and> malformed_header line"
  by (auto simp: parse_system_info_def malformed_header_def bind_e_Inl_iff index_Inl_iff)

lemma retained_Nil [simp]: "retained tag n [] = []"
  by (simp add: retained_def)

lemma retained_Cons:
  "retained tag n (l # ls) =
     (if startswith tag l \<and> n \<le> length (split_on (CHR '','') (strip l))
      then [split_on (CHR '','') (strip l)] else []) @ retained tag n ls"
  by (simp add: retained_def)

lemma classify_line_Inl_iff:
  "classify_line l st = Inl e \<longleftrightarrow> e = IndexError \<and> header_line l \<and> malformed_header l"
  by (auto simp: classify_line_def header_line_def Let_def bind_e_Inl_iff parse_system_info_Inl_iff)

lemma classify_line_Inr:
  assumes "classify_line l st = Inr st'"
  shows "os_type st' = (if startswith ''AAA,AIX'' l then AIX else os_type st)"
    and "lpar_data st' = lpar_data st @ retained ''LPAR,T'' 14 [l]"
    and "proc_data st' = proc_data st @ retained ''PROC,T'' 3 [l]"
    and "mem_data st' = mem_data st @ retained ''MEM,T'' 8 [l]"
  using assms tags_disjoint[of l]
  by (auto simp: classify_line_def retained_Cons Let_def bind_e_Inr_iff split: if_splits)

lemma scan_lines_Inr:
  "scan_lines lines st = Inr st' \<Longrightarrow>
     os_type st' = (if \<exists>l\<in>set lines. startswith ''AAA,AIX'' l then AIX else os_type st)
     \<and> lpar_data st' = lpar_data st @ retained ''LPAR,T'' 14 lines
     \<and> proc_data st' = proc_data st @ retained ''PROC,T'' 3 lines
     \<and> mem_data st' = mem_data st @ retained ''MEM,T'' 8 lines"
proof (induction lines arbitrary: st)
  case Nil
  then show ?case by simp
next
  case (Cons l ls)
  from Cons.prems obtain st1 where c: "classify_line l st = Inr st1" and s: "scan_lines ls st1 = Inr st'"
    by (auto split: sum.splits)
  note step = classify_line_Inr[OF c]
  note ih = Cons.IH[OF s]
  have r: "\<And>tag n. retained tag n (l # ls) = retained tag n [l] @ retained tag n ls"
    by (simp add: retained_Cons)
  show ?case using ih step by (auto simp: r)
qed

lemma scan_lines_fails_iff:
  "(\<exists>out e. scan_lines lines st = Inl (out, e)) \<longleftrightarrow> (\<exists>l\<in>set lines. header_line l \<and> malformed_header l)"
proof (induction lines arbitrary: st)
  case Nil
  then show ?case by simp
next
  case (Cons l ls)
  show ?case
  proof (cases "classify_line l st")
    case (Inl e)
    moreover from Inl have "header_line l \<and> malformed_header l"
      by (simp add: classify_line_Inl_iff)
    ultimately show ?thesis by auto
  next
    case (Inr st1)
    then have "\<not> (header_line l \<and> malformed_header l)"
      using classify_line_Inl_iff[of l st] by auto
    then show ?thesis using Inr Cons.IH[of st1] by auto
  qed
qed

lemma scan_lines_error: "scan_lines lines st = Inl (out, e) \<Longrightarrow> e = IndexError"
  by (induction lines arbitrary: st) (auto simp: classify_line_Inl_iff split: sum.splits)

lemma scan_init:
  assumes "scan_lines lines init_scan = Inr st"
  shows "os_type st = file_os lines" "lpar_data st = retained ''LPAR,T'' 14 lines"
    "proc_data st = retained ''PROC,T'' 3 lines" "mem_data st = retained ''MEM,T'' 8 lines"
  using scan_lines_Inr[OF assms] by (simp_all add: init_scan_def file_os_def)

lemma file_result_parts:
  assumes "length metrics = 12"
  shows "length (file_result info metrics p rq mem) = 19 + length mem"
    and "take 12 (drop 5 (file_result info metrics p rq mem)) = map Flt metrics"
    and "file_result info metrics p rq mem ! 17 = Flt p"
    and "file_result info metrics p rq mem ! 18 = Flt rq"
    and "drop 19 (file_result info metrics p rq mem) = map Flt mem"
    and "take 5 (file_result info metrics p rq mem) = map (\<lambda>k. Str (get_info info k))
           [''Date'', ''LPAR Name'', ''System Model'', ''Machine Serial Number'', ''Processor Type'']"
  using assms by (simp_all add: file_result_def nth_append)

lemma process_Some:
  assumes "snd (process_nmon_file tf path (Some lines)) = Some row"
  obtains info rq p where
    "retained ''LPAR,T'' 14 lines \<noteq> []"
    "run_queue tf (retained ''PROC,T'' 3 lines) = Inr rq"
    "cpu_percentile tf (file_os lines) (retained ''LPAR,T'' 14 lines) = Inr p"
    "row = file_result info
             (metrics_func (file_os lines) tf (retained ''LPAR,T'' 14 lines)) p rq
             (calculate_memory_metrics tf (retained ''MEM,T'' 8 lines) (file_os lines))"
proof (cases "scan_lines lines init_scan")
  case (Inl a)
  with assms show ?thesis
    by (cases a) (simp add: process_nmon_file_def)
next
  case (Inr st)
  note s = scan_init[OF Inr]
  from assms Inr s that[of _ _ "system_info st"] show ?thesis
    by (auto simp: process_nmon_file_def after_scan_def Let_def split: if_splits sum.splits)
qed

lemma process_None_iff:
  "snd (process_nmon_file tf path (Some lines)) = None \<longleftrightarrow>
     (\<exists>line\<in>set lines. header_line line \<and> malformed_header line)
     \<or> retained ''LPAR,T'' 14 lines = []
     \<or> (\<exists>e. run_queue tf (retained ''PROC,T'' 3 lines) = Inl e)
     \<or> (\<exists>e. cpu_percentile tf (file_os lines) (retained ''LPAR,T'' 14 lines) = Inl e)"
proof (cases "scan_lines lines init_scan")
  case (Inl a)
  then have "\<exists>line\<in>set lines. header_line line \<and> malformed_header line"
    using scan_lines_fails_iff[of lines init_scan] by (cases a) auto
  with Inl show ?thesis
    by (cases a) (simp add: process_nmon_file_def)
next
  case (Inr st)
  note s = scan_init[OF Inr]
  have "\<not> (\<exists>line\<in>set lines. header_line line \<and> malformed_header line)"
    using scan_lines_fails_iff[of lines init_scan] Inr by auto
  with Inr s show ?thesis
    by (auto simp: process_nmon_file_def after_scan_def Let_def split: if_splits sum.splits)
qed

lemma length_process:
  assumes "snd (process_nmon_file tf path (Some lines)) = Some row"
  shows "length row = 24"
  using assms by (elim process_Some) (simp add: file_result_parts(1))

lemma dropna_map_Num [simp]: "dropna (map Num xs) = xs"
  by (induction xs) simp_all

lemma quantile_eq_spec:
  assumes "xs \<noteq> []" "0 \<le> q" "q \<le> 1"
  shows "quantile q (map Num xs) = Num (percentile_spec q xs)"
proof -
  define n where "n = length xs"
  define r where "r = q * real (n - 1)"
  define s where "s = sort xs"
  have n: "n \<noteq> 0" using assms(1) by (simp add: n_def)
  have ls: "length s = n" by (simp add: s_def n_def)
  have r0: "0 \<le> r" using assms(2) by (simp add: r_def)
  have r1: "r \<le> real (n - 1)"
    unfolding r_def using assms(2,3) by (rule mult_left_le_one_le[OF of_nat_0_le_iff])
  have lo: "real (nat \<lfloor>r\<rfloor>) = of_int \<lfloor>r\<rfloor>" using r0 by simp
  have g: "r - real (nat \<lfloor>r\<rfloor>) = frac r" by (simp add: lo frac_def)
  have Q: "quantile q (map Num xs) =
             Num (s ! nat \<lfloor>r\<rfloor> + (s ! min (nat \<lfloor>r\<rfloor> + 1) (n - 1) - s ! nat \<lfloor>r\<rfloor>) * frac r)"
    unfolding quantile_def Let_def dropna_map_Num s_def[symmetric] ls r_def[symmetric] g
    using n by (simp only: if_False)
  have P: "percentile_spec q xs = s ! nat \<lfloor>r\<rfloor> + (s ! nat \<lceil>r\<rceil> - s ! nat \<lfloor>r\<rfloor>) * frac r"
    unfolding percentile_spec_def Let_def n_def[symmetric] r_def[symmetric] s_def[symmetric] ..
  show ?thesis
  proof (cases "r \<in> \<int>")
    case True
    then have "frac r = 0" by (simp add: frac_eq_0_iff)
    then show ?thesis by (simp add: Q P)
  next
    case False
    then have "r \<noteq> of_int \<lfloor>r\<rfloor>" by (metis Ints_of_int)
    then have c: "\<lceil>r\<rceil> = \<lfloor>r\<rfloor> + 1" by (simp add: ceiling_altdef)
    have "r \<noteq> real (n - 1)" using False by auto
    with r1 have "r < real (n - 1)" by simp
    then have "\<lfloor>r\<rfloor> < int (n - 1)" by (simp add: floor_less_iff)
    then have hi: "nat \<lfloor>r\<rfloor> + 1 \<le> n - 1" using r0 by linarith
    have j: "nat \<lceil>r\<rceil> = nat \<lfloor>r\<rfloor> + 1" using r0 c by (simp add: nat_add_distrib)
    show ?thesis
      unfolding Q P j using hi by (simp only: min_absorb1)
  qed
qed

lemma percentile_example: "percentile_spec (95 / 100) [10, 20, 30, 40, 50] = 48"
  by (simp add: percentile_spec_def frac_def)

lemma series_min_Num: "xs \<noteq> [] \<Longrightarrow> series_min (map Num xs) = Num (Min (set xs))"
  by (cases xs) (simp_all add: series_min_def flip: Min.set_eq_fold)

lemma series_max_Num: "xs \<noteq> [] \<Longrightarrow> series_max (map Num xs) = Num (Max (set xs))"
  by (cases xs) (simp_all add: series_max_def flip: Max.set_eq_fold)

lemma series_mean_Num: "xs \<noteq> [] \<Longrightarrow> series_mean (map Num xs) = Num (sum_list xs / real (length xs))"
  by (cases xs) (simp_all add: series_mean_def)


lemma col_fail_aix:
  assumes "row \<in> set data" "k < length row" "tf (row ! k) = None" "k \<in> {2, 3, 5, 6, 7, 8, 12}"
  shows "calculate_aix_metrics tf data = zeros 12"
proof -
  have "k < ncols data" using assms(1,2) by (auto simp: ncols_less_iff)
  moreover have "\<not> col_ok tf data k" using assms(1-3) by (auto simp: col_ok_def)
  ultimately have "float_col tf data k = Inl ValueError" by (simp add: float_col_cases)
  from aix_try_Inl[OF assms(4) this] show ?thesis
    by (auto simp: calculate_aix_metrics_def)
qed

lemma col_fail_linux:
  assumes "row \<in> set data" "k < length row" "tf (row ! k) = None" "k \<in> {2, 13, 10, 8, 21, 16, 4}"
  shows "calculate_linux_metrics tf data = zeros 12"
proof -
  have "k < ncols data" using assms(1,2) by (auto simp: ncols_less_iff)
  moreover have "\<not> col_ok tf data k" using assms(1-3) by (auto simp: col_ok_def)
  ultimately have "float_col tf data k = Inl ValueError" by (simp add: float_col_cases)
  from linux_try_Inl[OF assms(4) this] show ?thesis
    by (auto simp: calculate_linux_metrics_def)
qed

lemma short_frame_linux:
  assumes "\<forall>row\<in>set data. length row < 22"
  shows "\<exists>e. linux_metrics_try tf data = Inl e"
proof -
  have "\<not> 21 < ncols data" using assms by (auto simp: ncols_less_iff)
  then have "float_col tf data 21 = Inl KeyError" by (simp add: float_col_cases)
  then show ?thesis by (rule linux_try_Inl[rotated]) simp
qed

lemma num_cells_full:
  "\<forall>row\<in>set data. k < length row \<Longrightarrow> num_cells tf data k = map (\<lambda>row. Num (the (tf (row ! k)))) data"
  by (simp add: num_cells_def cells_def to_num_def)

lemma series_sub_Num:
  "series_sub (map (\<lambda>row. Num (f row)) data) (map (\<lambda>row. Num (g row)) data) = map Num (map (\<lambda>row. f row - g row) data)"
  by (induction data) (simp_all add: series_sub_def)

lemma float_iloc_full:
  assumes "data \<noteq> []" "\<forall>row\<in>set data. k < length row" "\<forall>row\<in>set data. tf (row ! k) \<noteq> None"
  shows "float_iloc tf data k = Inr (map (\<lambda>row. Num (the (tf (row ! k)))) data)"
proof -
  have "k < ncols data" using assms(1,2) by (cases data) (auto simp: ncols_less_iff)
  moreover have "col_ok tf data k" using assms(3) by (simp add: col_ok_def)
  ultimately show ?thesis using assms(2) by (simp add: float_iloc_cases num_cells_full)
qed

lemma memory_try_used:
  assumes "float_iloc tf mem_df (if os_type' = AIX then 6 else 2) = Inr a"
    and "float_iloc tf mem_df (if os_type' = AIX then 4 else 7) = Inr b"
    and "series_sub a b = map Num xs" and "xs \<noteq> []"
  shows "calculate_memory_metrics tf mem_df os_type' =
           [Num (real (length mem_df)), Num (Min (set xs) / 1024),
            Num (sum_list xs / real (length xs) / 1024), Num (Max (set xs) / 1024),
            Num (percentile_spec (95 / 100) xs / 1024)]"
proof -
  have q: "quantile (95 / 100) (map Num xs) = Num (percentile_spec (95 / 100) xs)"
    using assms(4) by (intro quantile_eq_spec) simp_all
  have "memory_metrics_try tf mem_df os_type' =
          Inr [Num (real (length mem_df)), Num (Min (set xs) / 1024),
            Num (sum_list xs / real (length xs) / 1024), Num (Max (set xs) / 1024),
            Num (percentile_spec (95 / 100) xs / 1024)]"
    using assms(1,2)
    by (cases os_type')
       (simp_all add: memory_metrics_try_def assms(3) series_min_Num[OF assms(4)]
          series_max_Num[OF assms(4)] series_mean_Num[OF assms(4)] q[simplified])
  then show ?thesis by (simp add: calculate_memory_metrics_def)
qed

lemma percentile_spec_const:
  assumes "xs \<noteq> []" "\<forall>x\<in>set xs. x = c"
  shows "percentile_spec (95 / 100) xs = c"
proof -
  define r :: real where "r = 95 / 100 * real (length xs - 1)"
  have r0: "0 \<le> r" by (simp add: r_def)
  have r1: "r \<le> real (length xs - 1)" by (simp add: r_def)
  have n: "0 < length xs" using assms(1) by simp
  have "\<lfloor>r\<rfloor> \<le> int (length xs - 1)" using r1 by (simp add: floor_le_iff)
  then have i: "nat \<lfloor>r\<rfloor> < length (sort xs)" using n by (simp; linarith)
  have "\<lceil>r\<rceil> \<le> int (length xs - 1)" using r1 by (simp add: ceiling_le_iff)
  then have j: "nat \<lceil>r\<rceil> < length (sort xs)" using n by (simp; linarith)
  have s: "\<forall>x\<in>set (sort xs). x = c" using assms(2) by simp
  from s i have "sort xs ! nat \<lfloor>r\<rfloor> = c" using nth_mem by blast
  moreover from s j have "sort xs ! nat \<lceil>r\<rceil> = c" using nth_mem by blast
  ultimately show ?thesis
    unfolding percentile_spec_def Let_def r_def[symmetric] by simp
qed

lemma ex_mem_const_rows:
  "ex_mem_const =
     [[''MEM'', ''T0001'', ''4096'', ''0'', ''0'', ''0'', ''0'', ''2048''],
      [''MEM'', ''T0002'', ''3072'', ''0'', ''0'', ''0'', ''0'', ''1024''],
      [''MEM'', ''T0003'', ''2048'', ''0'', ''0'', ''0'', ''0'', ''0'']]"
  by (simp add: ex_mem_const_def)

lemma ex_decimals:
  "decimal ''4096'' = Some 4096" "decimal ''2048'' = Some 2048" "decimal ''3072'' = Some 3072"
  "decimal ''1024'' = Some 1024" "decimal ''0'' = Some 0"
  by (simp_all add: decimal_def unsigned_decimal_def digit_def)

lemma t4: "list_all (\<lambda>row. 8 \<le> length row \<and> decimal (row ! 2) \<noteq> None \<and> decimal (row ! 7) \<noteq> None
                  \<and> mem_used decimal Linux row = 2048) ex_mem_const"
  by (simp add: ex_mem_const_rows ex_decimals mem_used_def)

lemma memory_metrics_numeric:
  assumes "mem_df \<noteq> []" and "\<forall>row\<in>set mem_df. 8 \<le> length row"
    and "\<forall>row\<in>set mem_df. \<forall>k\<in>(if os_type' = AIX then {6, 4} else {2, 7}). tf (row ! k) \<noteq> None"
  shows "calculate_memory_metrics tf mem_df os_type' =
           (let used = map (mem_used tf os_type') mem_df in
            [Num (real (length mem_df)), Num (Min (set used) / 1024),
             Num (sum_list used / real (length used) / 1024), Num (Max (set used) / 1024),
             Num (percentile_spec (95 / 100) used / 1024)])
         \<and> ((\<forall>row\<in>set mem_df. mem_used tf os_type' row = 2048) \<longrightarrow>
              calculate_memory_metrics tf mem_df os_type' =
                [Num (real (length mem_df)), Num 2, Num 2, Num 2, Num 2])"
proof -
  define used where "used = map (mem_used tf os_type') mem_df"
  have u: "used \<noteq> []" using assms(1) by (simp add: used_def)
  have len: "\<forall>row\<in>set mem_df. k < length row" if "k < 8" for k
    using assms(2) that by fastforce
  have ok: "\<forall>row\<in>set mem_df. tf (row ! k) \<noteq> None" if "k \<in> (if os_type' = AIX then {6, 4} else {2, 7})" for k
    using assms(3) that by blast
  let ?a = "if os_type' = AIX then 6 else 2" and ?b = "if os_type' = AIX then 4 else 7"
  have a: "float_iloc tf mem_df ?a = Inr (map (\<lambda>row. Num (the (tf (row ! ?a)))) mem_df)"
    by (rule float_iloc_full[OF assms(1)]) (use len ok in \<open>simp_all split: if_splits\<close>)
  have b: "float_iloc tf mem_df ?b = Inr (map (\<lambda>row. Num (the (tf (row ! ?b)))) mem_df)"
    by (rule float_iloc_full[OF assms(1)]) (use len ok in \<open>simp_all split: if_splits\<close>)
  have sub: "series_sub (map (\<lambda>row. Num (the (tf (row ! ?a)))) mem_df)
               (map (\<lambda>row. Num (the (tf (row ! ?b)))) mem_df) = map Num used"
    unfolding series_sub_Num used_def by (simp add: mem_used_def)
  have main: "calculate_memory_metrics tf mem_df os_type' =
           [Num (real (length mem_df)), Num (Min (set used) / 1024),
            Num (sum_list used / real (length used) / 1024), Num (Max (set used) / 1024),
            Num (percentile_spec (95 / 100) used / 1024)]"
    by (rule memory_try_used[OF a b sub u])
  have const: "calculate_memory_metrics tf mem_df os_type' =
                [Num (real (length mem_df)), Num 2, Num 2, Num 2, Num 2]"
    if c: "\<forall>row\<in>set mem_df. mem_used tf os_type' row = 2048"
  proof -
    have all: "\<forall>x\<in>set used. x = 2048" using c by (simp add: used_def)
    have rep: "used = replicate (length used) 2048"
      using all by (simp add: replicate_length_same)
    have set: "set used = {2048}" using all u by (cases used) auto
    have sum: "sum_list used = real (length used) * 2048"
      by (subst rep) (simp add: sum_list_replicate)
    have p: "percentile_spec (95 / 100) used = 2048"
      by (rule percentile_spec_const[OF u all])
    show ?thesis using u by (simp add: main set sum p[simplified])
  qed
  show ?thesis using main const by (simp add: used_def Let_def)
qed

lemma memory_try_Inl:
  assumes "k \<in> (if os_type' = AIX then {6, 4} else {2, 7})" "float_iloc tf mem_df k = Inl e"
  shows "\<exists>e'. memory_metrics_try tf mem_df os_type' = Inl e'"
proof (cases os_type')
  case AIX
  with assms show ?thesis
    by (cases "float_iloc tf mem_df 6"; cases "float_iloc tf mem_df 4")
       (auto simp: memory_metrics_try_def)
next
  case Linux
  with assms show ?thesis
    by (cases "float_iloc tf mem_df 2"; cases "float_iloc tf mem_df 7")
       (auto simp: memory_metrics_try_def)
qed

lemma memory_metrics_fallback:
  assumes "mem_df = [] \<or> (\<exists>row\<in>set mem_df. \<exists>k\<in>(if os_type' = AIX then {6, 4} else {2, 7}).
             k < length row \<and> tf (row ! k) = None)"
  shows "calculate_memory_metrics tf mem_df os_type' = zeros 5"
proof -
  have "\<exists>k\<in>(if os_type' = AIX then {6, 4} else {2, 7}). \<exists>e. float_iloc tf mem_df k = Inl e"
    using assms
  proof
    assume "mem_df = []"
    then show ?thesis by (auto simp: float_iloc_cases ncols_def)
  next
    assume "\<exists>row\<in>set mem_df. \<exists>k\<in>(if os_type' = AIX then {6, 4} else {2, 7}).
             k < length row \<and> tf (row ! k) = None"
    then obtain row k where r: "row \<in> set mem_df" and k: "k \<in> (if os_type' = AIX then {6, 4} else {2, 7})"
      and l: "k < length row" and n: "tf (row ! k) = None"
      by blast
    have "k < ncols mem_df" using r l by (auto simp: ncols_less_iff)
    moreover have "\<not> col_ok tf mem_df k" using r l n by (auto simp: col_ok_def)
    ultimately have "float_iloc tf mem_df k = Inl ValueError" by (simp add: float_iloc_cases)
    with k show ?thesis by blast
  qed
  then obtain k e where "k \<in> (if os_type' = AIX then {6, 4} else {2, 7})" "float_iloc tf mem_df k = Inl e"
    by blast
  from memory_try_Inl[OF this] show ?thesis
    by (auto simp: calculate_memory_metrics_def)
qed

lemma classify_line_printed:
  assumes "classify_line l st = Inr st'" "list_all scan_warning (printed st)"
  shows "list_all scan_warning (printed st')"
  using assms
  by (auto simp: classify_line_def Let_def bind_e_Inr_iff scan_warning_def startswith_def
           split: if_splits)

lemma scan_lines_printed:
  "scan_lines lines st = Inl (out, e) \<Longrightarrow> list_all scan_warning (printed st)
     \<Longrightarrow> list_all scan_warning out"
proof (induction lines arbitrary: st)
  case Nil
  then show ?case by simp
next
  case (Cons l ls)
  show ?case
  proof (cases "classify_line l st")
    case (Inl e')
    with Cons.prems show ?thesis by simp
  next
    case (Inr st1)
    with Cons.prems have "scan_lines ls st1 = Inl (out, e)" by simp
    moreover have "list_all scan_warning (printed st1)"
      using classify_line_printed[OF Inr Cons.prems(2)] .
    ultimately show ?thesis by (rule Cons.IH)
  qed
qed

lemma no_lpar_warning_not_scan:
  "\<not> scan_warning (Warn (''Warning: No LPAR data found in '' @ path))"
  by (simp add: scan_warning_def startswith_def)

lemma no_lpar_messages:
  assumes "retained ''LPAR,T'' 14 lines = []"
  shows "if \<exists>line\<in>set lines. header_line line \<and> malformed_header line
         then last (fst (process_nmon_file tf path (Some lines)))
                = Err (''Error processing '' @ path @ '': '') IndexError
              \<and> Warn (''Warning: No LPAR data found in '' @ path)
                  \<notin> set (fst (process_nmon_file tf path (Some lines)))
         else last (fst (process_nmon_file tf path (Some lines)))
                = Warn (''Warning: No LPAR data found in '' @ path)"
proof (cases "scan_lines lines init_scan")
  case (Inl a)
  obtain out e where a: "a = (out, e)" by (cases a)
  have c: "\<exists>line\<in>set lines. header_line line \<and> malformed_header line"
    using scan_lines_fails_iff[of lines init_scan] Inl a by blast
  have e: "e = IndexError" using Inl a scan_lines_error by blast
  have "list_all scan_warning out"
    using Inl a by (intro scan_lines_printed[of lines init_scan out e]) (simp_all add: init_scan_def)
  then have w: "Warn (''Warning: No LPAR data found in '' @ path) \<notin> set out"
    using no_lpar_warning_not_scan[of path] by (auto simp: list_all_iff)
  have f: "fst (process_nmon_file tf path (Some lines))
             = out @ [Err (''Error processing '' @ path @ '': '') IndexError]"
    using Inl a e by (simp add: process_nmon_file_def)
  show ?thesis using c w by (simp add: f)
next
  case (Inr st)
  have c: "\<not> (\<exists>line\<in>set lines. header_line line \<and> malformed_header line)"
    using scan_lines_fails_iff[of lines init_scan] Inr by auto
  have "lpar_data st = []" using scan_init(2)[OF Inr] assms by simp
  then have "fst (process_nmon_file tf path (Some lines))
               = printed st @ [Warn (''Warning: No LPAR data found in '' @ path)]"
    using Inr by (simp add: process_nmon_file_def after_scan_def)
  then show ?thesis using c by simp
qed

lemma length_process_any:
  assumes "snd (process_nmon_file tf path contents) = Some row"
  shows "length row = 24"
proof (cases contents)
  case None
  with assms show ?thesis by (simp add: process_nmon_file_def)
next
  case (Some lines)
  with assms have "snd (process_nmon_file tf path (Some lines)) = Some row" by simp
  then show ?thesis by (rule length_process)
qed

lemma file_rows_unfold:
  "file_rows tf (filename, contents) =
     (if endswith ''.nmon'' filename then
        (case snd (process_nmon_file tf (folder_path @ filename) contents) of
           None \<Rightarrow> []
         | Some result \<Rightarrow> if result \<noteq> [] then [Str filename # result] else [])
      else [])"
  unfolding file_rows_def by (rule prod.case)

lemma file_rows_None:
  "snd (process_nmon_file tf (folder_path @ filename) contents) = None
     \<Longrightarrow> file_rows tf (filename, contents) = []"
  unfolding file_rows_unfold by simp

lemma file_rows_Some:
  "snd (process_nmon_file tf (folder_path @ filename) contents) = Some result
     \<Longrightarrow> row \<in> set (file_rows tf (filename, contents)) \<Longrightarrow> row = Str filename # result"
  unfolding file_rows_unfold
  by (cases "endswith ''.nmon'' filename"; cases "result = []") simp_all

lemma file_rows_width:
  assumes "row \<in> set (file_rows tf entry)"
  shows "length row = 25"
proof -
  obtain filename contents where e: "entry = (filename, contents)"
    by (cases entry)
  show ?thesis
  proof (cases "snd (process_nmon_file tf (folder_path @ filename) contents)")
    case None
    from file_rows_None[OF None] assms show ?thesis unfolding e by simp
  next
    case (Some result)
    from length_process_any[OF Some] have "length result = 24" .
    moreover from file_rows_Some[OF Some] assms have "row = Str filename # result"
      unfolding e by blast
    ultimately show ?thesis by simp
  qed
qed

lemma results_df_total: "results_df tf listing = Inr (columns, all_results tf listing)"
proof -
  have "length columns = 25" by (simp add: columns_def)
  then have "list_all (\<lambda>row. length row = length columns) (all_results tf listing)"
    by (auto simp: list_all_iff all_results_def file_rows_width)
  then show ?thesis by (simp add: results_df_def Let_def)
qed




section \<open>The claims\<close>

text \<open>
  C1. When the file yields a result and one of its lines, wherever it stands, starts with
  the AIX signature, the metrics of the result are those of the AIX reducer on all the
  LPAR records the scan keeps, those in front of the signature too, and the CPU
  percentile is taken on column 2; without such a line the flavour stays Linux: the
  Linux reducer on the same records, and column 10.
\<close>

theorem aix_signature_anywhere:
  assumes "snd (process_nmon_file tf path (Some lines)) = Some row"
  shows "if \<exists>line\<in>set lines. startswith ''AAA,AIX'' line
         then take 12 (drop 5 row) = map Flt (calculate_aix_metrics tf (retained ''LPAR,T'' 14 lines))
            \<and> (\<exists>c. float_iloc tf (retained ''LPAR,T'' 14 lines) 2 = Inr c
                   \<and> row ! 17 = Flt (quantile (95 / 100) c))
         else take 12 (drop 5 row) = map Flt (calculate_linux_metrics tf (retained ''LPAR,T'' 14 lines))
            \<and> (\<exists>c. float_iloc tf (retained ''LPAR,T'' 14 lines) 10 = Inr c
                   \<and> row ! 17 = Flt (quantile (95 / 100) c))"
proof -
  from assms obtain info rq p where
    p: "cpu_percentile tf (file_os lines) (retained ''LPAR,T'' 14 lines) = Inr p"
    and row: "row = file_result info
                     (metrics_func (file_os lines) tf (retained ''LPAR,T'' 14 lines)) p rq
                     (calculate_memory_metrics tf (retained ''MEM,T'' 8 lines) (file_os lines))"
    by (rule process_Some)
  have m: "take 12 (drop 5 row) = map Flt (metrics_func (file_os lines) tf (retained ''LPAR,T'' 14 lines))"
    and c: "row ! 17 = Flt p"
    by (simp_all add: row file_result_parts)
  show ?thesis
  proof (cases "\<exists>line\<in>set lines. startswith ''AAA,AIX'' line")
    case True
    then have os: "file_os lines = AIX" by (simp add: file_os_def)
    from p have "\<exists>c. float_iloc tf (retained ''LPAR,T'' 14 lines) 2 = Inr c \<and> p = quantile (95 / 100) c"
      by (auto simp: os cpu_percentile_def bind_e_Inr_iff)
    with True m c show ?thesis by (auto simp: os metrics_func_def)
  next
    case False
    then have os: "file_os lines = Linux" by (simp add: file_os_def)
    from p have "\<exists>c. float_iloc tf (retained ''LPAR,T'' 14 lines) 10 = Inr c \<and> p = quantile (95 / 100) c"
      by (auto simp: os cpu_percentile_def bind_e_Inr_iff)
    with False m c show ?thesis by (auto simp: os metrics_func_def)
  qed
qed

text \<open>C1 at a file whose signature is its last line, after both LPAR lines.\<close>

theorem aix_signature_anywhere_witness:
  "list_ex (startswith ''AAA,AIX'') ex_late_aix
   \<and> \<not> startswith ''AAA,AIX'' (hd ex_late_aix)
   \<and> retained ''LPAR,T'' 14 ex_late_aix
       = [split_on (CHR '','') ex_lpar1, split_on (CHR '','') ex_lpar2]
   \<and> (\<exists>row. snd (process_nmon_file decimal ''a.nmon'' (Some ex_late_aix)) = Some row
         \<and> take 12 (drop 5 row)
             = map Flt (calculate_aix_metrics decimal (retained ''LPAR,T'' 14 ex_late_aix))
         \<and> take 12 (drop 5 row)
             = map (\<lambda>v. Flt (Num v)) [2, 2, 3 / 2, 400 / 3, 4, 3, 128, 1, 30, 10, 15, 20]
         \<and> row ! 17 = Flt (Num (39 / 2)))"
proof -
  have a: "list_ex (startswith ''AAA,AIX'') ex_late_aix" "\<not> startswith ''AAA,AIX'' (hd ex_late_aix)"
    by code_simp+
  have r: "retained ''LPAR,T'' 14 ex_late_aix
       = [split_on (CHR '','') ex_lpar1, split_on (CHR '','') ex_lpar2]"
    by code_simp
  have v: "calculate_aix_metrics decimal (retained ''LPAR,T'' 14 ex_late_aix)
       = map Num [2, 2, 3 / 2, 400 / 3, 4, 3, 128, 1, 30, 10, 15, 20]"
    by code_simp
  have q: "float_iloc decimal (retained ''LPAR,T'' 14 ex_late_aix) 2 = Inr [Num 10, Num 20]"
    by code_simp
  have q2: "quantile (19 / 20) [Num 10, Num 20] = Num (39 / 2)"
    by code_simp
  have s: "snd (process_nmon_file decimal ''a.nmon'' (Some ex_late_aix)) \<noteq> None"
    by code_simp
  then obtain row where row: "snd (process_nmon_file decimal ''a.nmon'' (Some ex_late_aix)) = Some row"
    by blast
  from a(1) have e: "\<exists>line\<in>set ex_late_aix. startswith ''AAA,AIX'' line"
    by (simp add: list_ex_iff)
  from aix_signature_anywhere[OF row] e
  have "take 12 (drop 5 row) = map Flt (calculate_aix_metrics decimal (retained ''LPAR,T'' 14 ex_late_aix))
        \<and> (\<exists>c. float_iloc decimal (retained ''LPAR,T'' 14 ex_late_aix) 2 = Inr c
               \<and> row ! 17 = Flt (quantile (95 / 100) c))"
    by (simp only: if_True)
  then have "take 12 (drop 5 row) = map Flt (calculate_aix_metrics decimal (retained ''LPAR,T'' 14 ex_late_aix))"
    and "row ! 17 = Flt (Num (39 / 2))"
    by (auto simp: q q2)
  moreover from this(1) have "take 12 (drop 5 row)
             = map (\<lambda>v. Flt (Num v)) [2, 2, 3 / 2, 400 / 3, 4, 3, 128, 1, 30, 10, 15, 20]"
    by (simp add: v)
  ultimately show ?thesis using a r row by blast
qed




text \<open>
  C3. On a sample that is not empty, the quantile that the code calls at 0.95 is the rank
  interpolation of the specification, and so are the CPU percentile, the run queue
  percentile and (divided by 1024) the memory percentile whenever their column is that
  sample; on the sample 10, 20, 30, 40, 50 the value is 48.
\<close>

theorem percentiles_are_linear_interpolation:
  assumes "xs \<noteq> []"
  shows "quantile (95 / 100) (map Num xs) = Num (percentile_spec (95 / 100) xs)
       \<and> (float_iloc tf lpar_df (if os_type' = AIX then 2 else 10) = Inr (map Num xs)
            \<longrightarrow> cpu_percentile tf os_type' lpar_df = Inr (Num (percentile_spec (95 / 100) xs)))
       \<and> (float_iloc tf proc_df 2 = Inr (map Num xs)
            \<longrightarrow> run_queue tf proc_df = Inr (Num (percentile_spec (95 / 100) xs)))
       \<and> (float_iloc tf mem_df (if os_type' = AIX then 6 else 2) = Inr a
            \<and> float_iloc tf mem_df (if os_type' = AIX then 4 else 7) = Inr b
            \<and> series_sub a b = map Num xs
            \<longrightarrow> calculate_memory_metrics tf mem_df os_type' ! 4
                  = Num (percentile_spec (95 / 100) xs / 1024))
       \<and> percentile_spec (95 / 100) [10, 20, 30, 40, 50] = 48"
proof -
  have q: "quantile (95 / 100) (map Num xs) = Num (percentile_spec (95 / 100) xs)"
    using assms by (intro quantile_eq_spec) simp_all
  have cpu: "cpu_percentile tf os_type' lpar_df = Inr (Num (percentile_spec (95 / 100) xs))"
    if "float_iloc tf lpar_df (if os_type' = AIX then 2 else 10) = Inr (map Num xs)"
    using that q by (simp add: cpu_percentile_def)
  have rq: "run_queue tf proc_df = Inr (Num (percentile_spec (95 / 100) xs))"
    if h: "float_iloc tf proc_df 2 = Inr (map Num xs)"
  proof -
    have "proc_df \<noteq> []" using h by (auto simp: float_iloc_cases ncols_def)
    then show ?thesis using h q by (simp add: run_queue_def)
  qed
  have mem: "calculate_memory_metrics tf mem_df os_type' ! 4
                  = Num (percentile_spec (95 / 100) xs / 1024)"
    if "float_iloc tf mem_df (if os_type' = AIX then 6 else 2) = Inr a"
      "float_iloc tf mem_df (if os_type' = AIX then 4 else 7) = Inr b"
      "series_sub a b = map Num xs"
    by (simp add: memory_try_used[OF that assms])
  show ?thesis using q cpu rq mem percentile_example by blast
qed

text \<open>C3 at a file whose CPU, run queue and memory samples are 30, 10, 50, 20, 40.\<close>

theorem percentiles_are_linear_interpolation_witness:
  "float_iloc decimal (retained ''LPAR,T'' 14 ex_percentile) 2 = Inr (map Num [30, 10, 50, 20, 40])
   \<and> cpu_percentile decimal AIX (retained ''LPAR,T'' 14 ex_percentile) = Inr (Num 48)
   \<and> run_queue decimal (retained ''PROC,T'' 3 ex_percentile) = Inr (Num 48)
   \<and> calculate_memory_metrics decimal (retained ''MEM,T'' 8 ex_percentile) AIX ! 4 = Num (48 / 1024)"
proof -
  have n: "[30, 10, 50, 20, 40] \<noteq> ([] :: real list)"
    by simp
  have c: "float_iloc decimal (retained ''LPAR,T'' 14 ex_percentile) (if AIX = AIX then 2 else 10)
             = Inr (map Num [30, 10, 50, 20, 40])"
    by code_simp
  have p: "float_iloc decimal (retained ''PROC,T'' 3 ex_percentile) 2 = Inr (map Num [30, 10, 50, 20, 40])"
    by code_simp
  have a: "float_iloc decimal (retained ''MEM,T'' 8 ex_percentile) (if AIX = AIX then 6 else 2)
             = Inr (map Num [130, 110, 150, 120, 140])"
    by code_simp
  have b: "float_iloc decimal (retained ''MEM,T'' 8 ex_percentile) (if AIX = AIX then 4 else 7)
             = Inr (map Num [100, 100, 100, 100, 100])"
    by code_simp
  have s: "series_sub (map Num [130, 110, 150, 120, 140]) (map Num [100, 100, 100, 100, 100])
             = map Num [30, 10, 50, 20, 40]"
    by (simp add: series_sub_def)
  have v: "percentile_spec (95 / 100) [30, 10, 50, 20, 40] = 48"
    by (simp add: percentile_spec_def frac_def)
  from percentiles_are_linear_interpolation[OF n, of decimal "retained ''LPAR,T'' 14 ex_percentile"
      AIX "retained ''PROC,T'' 3 ex_percentile" "retained ''MEM,T'' 8 ex_percentile"
      "map Num [130, 110, 150, 120, 140]" "map Num [100, 100, 100, 100, 100]"] c p a b s
  have "cpu_percentile decimal AIX (retained ''LPAR,T'' 14 ex_percentile)
          = Inr (Num (percentile_spec (95 / 100) [30, 10, 50, 20, 40]))
   \<and> run_queue decimal (retained ''PROC,T'' 3 ex_percentile)
          = Inr (Num (percentile_spec (95 / 100) [30, 10, 50, 20, 40]))
   \<and> calculate_memory_metrics decimal (retained ''MEM,T'' 8 ex_percentile) AIX ! 4
          = Num (percentile_spec (95 / 100) [30, 10, 50, 20, 40] / 1024)"
    by blast
  then show ?thesis using c unfolding v by simp
qed

text \<open>
  C4, amended. The header extractor raises exactly on a malformed line, and what it
  raises is IndexError; a line without any of the five markers leaves the mapping as it
  is; a file with a malformed line among those that go to the header extractor has no
  result; a key that is not set reads as \<open>N/A\<close>.
\<close>

theorem header_extractor_outcomes:
  "(parse_system_info line info = Inl e \<longleftrightarrow> e = IndexError \<and> malformed_header line)
   \<and> (\<not> contains ''AAA,date'' line \<and> \<not> contains ''lparname'' line
        \<and> \<not> contains ''System Model:'' line \<and> \<not> contains ''Machine Serial Number:'' line
        \<and> \<not> contains ''Processor Type:'' line
      \<longrightarrow> parse_system_info line info = Inr info)
   \<and> ((\<exists>l\<in>set lines. header_line l \<and> malformed_header l)
      \<longrightarrow> snd (process_nmon_file tf path (Some lines)) = None)
   \<and> (info key = None \<longrightarrow> get_info info key = ''N/A'')"
proof -
  have 1: "parse_system_info line info = Inl e \<longleftrightarrow> e = IndexError \<and> malformed_header line"
    by (rule parse_system_info_Inl_iff)
  have 2: "parse_system_info line info = Inr info"
    if "\<not> contains ''AAA,date'' line \<and> \<not> contains ''lparname'' line
        \<and> \<not> contains ''System Model:'' line \<and> \<not> contains ''Machine Serial Number:'' line
        \<and> \<not> contains ''Processor Type:'' line"
    using that by (simp add: parse_system_info_def)
  have 3: "snd (process_nmon_file tf path (Some lines)) = None"
    if "\<exists>l\<in>set lines. header_line l \<and> malformed_header l"
    using that by (simp add: process_None_iff)
  have 4: "get_info info key = ''N/A''" if "info key = None"
    using that by (simp add: get_info_def)
  show ?thesis using 1 2 3 4 by blast
qed

text \<open>
  C4 as stated fails: a line with the marker \<open>lparname\<close> and two fields, and a
  \<open>System Model:\<close> line whose tail has one segment, raise IndexError, and a file that
  has a result without such a line has none with it.
\<close>

theorem header_extractor_counterexample:
  "contains ''lparname'' (''BBBL,lparname'' @ [CHR 0x0A])
   \<and> length (split_on (CHR '','') (''BBBL,lparname'' @ [CHR 0x0A])) = 2
   \<and> parse_system_info (''BBBL,lparname'' @ [CHR 0x0A]) Map.empty = Inl IndexError
   \<and> contains ''System Model:'' (''BBBP,001,System Model: IBM'' @ [CHR 0x0A])
   \<and> split_on (CHR '','') (after_colon (''BBBP,001,System Model: IBM'' @ [CHR 0x0A])) = [''IBM'']
   \<and> parse_system_info (''BBBP,001,System Model: IBM'' @ [CHR 0x0A]) Map.empty = Inl IndexError
   \<and> snd (process_nmon_file decimal ''a.nmon'' (Some ex_linux)) \<noteq> None
   \<and> snd (process_nmon_file decimal ''a.nmon'' (Some ex_short_lparname)) = None
   \<and> snd (process_nmon_file decimal ''a.nmon'' (Some ex_short_model)) = None"
proof -
  have a: "contains ''lparname'' (''BBBL,lparname'' @ [CHR 0x0A])"
    "length (split_on (CHR '','') (''BBBL,lparname'' @ [CHR 0x0A])) = 2"
    "malformed_header (''BBBL,lparname'' @ [CHR 0x0A])"
    by code_simp+
  have b: "contains ''System Model:'' (''BBBP,001,System Model: IBM'' @ [CHR 0x0A])"
    "split_on (CHR '','') (after_colon (''BBBP,001,System Model: IBM'' @ [CHR 0x0A])) = [''IBM'']"
    "malformed_header (''BBBP,001,System Model: IBM'' @ [CHR 0x0A])"
    by code_simp+
  have c: "snd (process_nmon_file decimal ''a.nmon'' (Some ex_linux)) \<noteq> None"
    "snd (process_nmon_file decimal ''a.nmon'' (Some ex_short_lparname)) = None"
    "snd (process_nmon_file decimal ''a.nmon'' (Some ex_short_model)) = None"
    by code_simp+
  have d: "parse_system_info (''BBBL,lparname'' @ [CHR 0x0A]) Map.empty = Inl IndexError"
    "parse_system_info (''BBBP,001,System Model: IBM'' @ [CHR 0x0A]) Map.empty = Inl IndexError"
    using a(3) b(3) by (simp_all only: parse_system_info_Inl_iff simp_thms)
  from a(1,2) b(1,2) c d show ?thesis by blast
qed

text \<open>
  C4 at the \<open>lparname\<close> line of two fields, at a file that ends with it, and at a
  line without a marker.
\<close>

theorem header_extractor_outcomes_witness:
  "malformed_header (''BBBL,lparname'' @ [CHR 0x0A])
   \<and> parse_system_info (''BBBL,lparname'' @ [CHR 0x0A]) Map.empty = Inl IndexError
   \<and> list_ex (\<lambda>l. header_line l \<and> malformed_header l) ex_short_lparname
   \<and> snd (process_nmon_file decimal ''a.nmon'' (Some ex_short_lparname)) = None
   \<and> parse_system_info ''ZZZZ,T0001,1'' Map.empty = Inr Map.empty
   \<and> get_info Map.empty ''LPAR Name'' = ''N/A''"
proof -
  have m: "malformed_header (''BBBL,lparname'' @ [CHR 0x0A])"
    and x: "list_ex (\<lambda>l. header_line l \<and> malformed_header l) ex_short_lparname"
    and k: "\<not> contains ''AAA,date'' ''ZZZZ,T0001,1'' \<and> \<not> contains ''lparname'' ''ZZZZ,T0001,1''
        \<and> \<not> contains ''System Model:'' ''ZZZZ,T0001,1''
        \<and> \<not> contains ''Machine Serial Number:'' ''ZZZZ,T0001,1''
        \<and> \<not> contains ''Processor Type:'' ''ZZZZ,T0001,1''"
    by code_simp+
  from x have x': "\<exists>l\<in>set ex_short_lparname. header_line l \<and> malformed_header l"
    by (simp add: list_ex_iff)
  note t = header_extractor_outcomes[of "''BBBL,lparname'' @ [CHR 0x0A]" Map.empty IndexError
      ex_short_lparname decimal "''a.nmon''" "''LPAR Name''"]
  from t m have 1: "parse_system_info (''BBBL,lparname'' @ [CHR 0x0A]) Map.empty = Inl IndexError"
    by blast
  from t x' have 2: "snd (process_nmon_file decimal ''a.nmon'' (Some ex_short_lparname)) = None"
    by blast
  from t have 3: "get_info Map.empty ''LPAR Name'' = ''N/A''"
    by simp
  from header_extractor_outcomes[of "''ZZZZ,T0001,1''" Map.empty] k
  have 4: "parse_system_info ''ZZZZ,T0001,1'' Map.empty = Inr Map.empty"
    by blast
  from m 1 x 2 4 3 show ?thesis by blast
qed

text \<open>
  C5. The table has 25 columns and every row has 25 entries, so building it never
  raises; the names are those of the specification except at index 21, where the source
  has \<open>Mim MEM Used\<close> and the specification \<open>Min MEM Used\<close>.
\<close>

theorem column_names_of_table:
  "length columns = 25
   \<and> columns = spec_columns[21 := ''Mim MEM Used'']
   \<and> columns ! 21 = ''Mim MEM Used''
   \<and> spec_columns ! 21 = ''Min MEM Used''
   \<and> columns \<noteq> spec_columns
   \<and> results_df tf listing = Inr (columns, all_results tf listing)"
proof -
  have "columns ! 21 = ''Mim MEM Used''" "spec_columns ! 21 = ''Min MEM Used''"
    by (simp_all add: columns_def spec_columns_def)
  moreover from this have "columns \<noteq> spec_columns" by auto
  moreover have "length columns = 25" "columns = spec_columns[21 := ''Mim MEM Used'']"
    by (simp_all add: columns_def spec_columns_def)
  ultimately show ?thesis using results_df_total by blast
qed

text \<open>
  C6. Both metric reducers return 12 values for every frame. When a cell of a column
  that the reducer reads does not convert, and when the frame is empty, the result is
  the 12 zeros; the exception stays inside the reducer, whose result is a tuple in
  every case.
\<close>

theorem reducers_return_12_values:
  "length (calculate_aix_metrics tf data) = 12
   \<and> length (calculate_linux_metrics tf data) = 12
   \<and> ((\<exists>row\<in>set data. \<exists>k\<in>{2, 3, 5, 6, 7, 8, 12}. k < length row \<and> tf (row ! k) = None)
        \<longrightarrow> calculate_aix_metrics tf data = zeros 12)
   \<and> ((\<exists>row\<in>set data. \<exists>k\<in>{2, 13, 10, 8, 21, 16, 4}. k < length row \<and> tf (row ! k) = None)
        \<longrightarrow> calculate_linux_metrics tf data = zeros 12)
   \<and> calculate_aix_metrics tf [] = zeros 12
   \<and> calculate_linux_metrics tf [] = zeros 12"
proof -
  have a: "calculate_aix_metrics tf [] = zeros 12"
    by (simp add: calculate_aix_metrics_def aix_metrics_try_def float_col_def getitem_def ncols_def)
  have l: "calculate_linux_metrics tf [] = zeros 12"
    by (simp add: calculate_linux_metrics_def linux_metrics_try_def float_col_def getitem_def ncols_def)
  have fa: "(\<exists>row\<in>set data. \<exists>k\<in>{2, 3, 5, 6, 7, 8, 12}. k < length row \<and> tf (row ! k) = None)
        \<longrightarrow> calculate_aix_metrics tf data = zeros 12"
    using col_fail_aix[of _ data _ tf] by blast
  have fl: "(\<exists>row\<in>set data. \<exists>k\<in>{2, 13, 10, 8, 21, 16, 4}. k < length row \<and> tf (row ! k) = None)
        \<longrightarrow> calculate_linux_metrics tf data = zeros 12"
    using col_fail_linux[of _ data _ tf] by blast
  show ?thesis using a l fa fl by simp
qed

text \<open>C6 at a frame of one record whose CPU field is not a number.\<close>

theorem reducers_return_12_values_witness:
  "length ex_bad_row = 14 \<and> decimal (ex_bad_row ! 2) = None
   \<and> calculate_aix_metrics decimal [ex_bad_row] = zeros 12
   \<and> calculate_linux_metrics decimal [ex_bad_row] = zeros 12"
proof -
  have h: "length ex_bad_row = 14" "decimal (ex_bad_row ! 2) = None"
    by code_simp+
  then have "\<exists>row\<in>set [ex_bad_row]. \<exists>k\<in>{2, 3, 5, 6, 7, 8, 12}. k < length row \<and> decimal (row ! k) = None"
    and "\<exists>row\<in>set [ex_bad_row]. \<exists>k\<in>{2, 13, 10, 8, 21, 16, 4}. k < length row \<and> decimal (row ! k) = None"
    by simp_all
  with reducers_return_12_values[of decimal "[ex_bad_row]"] h show ?thesis by blast
qed

text \<open>
  C7, amended. For a frame of MEM records that is not empty, whose records have 8 fields
  at least and whose two columns of the flavour hold numbers, the memory reducer returns
  the number of records and the minimum, mean, maximum and 95th percentile of the
  per-record difference (column 6 minus column 4 for AIX, column 2 minus column 7 for
  Linux), each divided by 1024; when every difference is 2048 the four statistics are 2.
  For the empty frame, and for a frame with a cell of one of the two columns that does
  not convert, it returns the five zeros: the count is then 0, whatever the number of
  records.
\<close>

theorem memory_metrics_in_gib:
  "(mem_df \<noteq> [] \<and> (\<forall>row\<in>set mem_df. 8 \<le> length row)
      \<and> (\<forall>row\<in>set mem_df. \<forall>k\<in>(if os_type' = AIX then {6, 4} else {2, 7}). tf (row ! k) \<noteq> None)
    \<longrightarrow> calculate_memory_metrics tf mem_df os_type' =
           (let used = map (mem_used tf os_type') mem_df in
            [Num (real (length mem_df)), Num (Min (set used) / 1024),
             Num (sum_list used / real (length used) / 1024), Num (Max (set used) / 1024),
             Num (percentile_spec (95 / 100) used / 1024)])
         \<and> ((\<forall>row\<in>set mem_df. mem_used tf os_type' row = 2048) \<longrightarrow>
              calculate_memory_metrics tf mem_df os_type' =
                [Num (real (length mem_df)), Num 2, Num 2, Num 2, Num 2]))
   \<and> (mem_df = [] \<or> (\<exists>row\<in>set mem_df. \<exists>k\<in>(if os_type' = AIX then {6, 4} else {2, 7}).
                          k < length row \<and> tf (row ! k) = None)
    \<longrightarrow> calculate_memory_metrics tf mem_df os_type' = zeros 5)"
proof (intro conjI impI)
  assume a: "mem_df \<noteq> [] \<and> (\<forall>row\<in>set mem_df. 8 \<le> length row)
      \<and> (\<forall>row\<in>set mem_df. \<forall>k\<in>(if os_type' = AIX then {6, 4} else {2, 7}). tf (row ! k) \<noteq> None)"
  then have 1: "mem_df \<noteq> []" and 2: "\<forall>row\<in>set mem_df. 8 \<le> length row"
    and 3: "\<forall>row\<in>set mem_df. \<forall>k\<in>(if os_type' = AIX then {6, 4} else {2, 7}). tf (row ! k) \<noteq> None"
    by blast+
  note m = memory_metrics_numeric[OF 1 2 3]
  from m show "calculate_memory_metrics tf mem_df os_type' =
           (let used = map (mem_used tf os_type') mem_df in
            [Num (real (length mem_df)), Num (Min (set used) / 1024),
             Num (sum_list used / real (length used) / 1024), Num (Max (set used) / 1024),
             Num (percentile_spec (95 / 100) used / 1024)])"
    by (rule conjunct1)
  assume "\<forall>row\<in>set mem_df. mem_used tf os_type' row = 2048"
  with m show "calculate_memory_metrics tf mem_df os_type' =
                [Num (real (length mem_df)), Num 2, Num 2, Num 2, Num 2]"
    by blast
next
  assume "mem_df = [] \<or> (\<exists>row\<in>set mem_df. \<exists>k\<in>(if os_type' = AIX then {6, 4} else {2, 7}).
                          k < length row \<and> tf (row ! k) = None)"
  then show "calculate_memory_metrics tf mem_df os_type' = zeros 5"
    by (rule memory_metrics_fallback)
qed

text \<open>
  C7 as stated fails: the one MEM record of this file has 8 fields and is retained, its
  column 2 is not a number, and the count returned is 0, not 1.
\<close>

theorem memory_count_counterexample:
  "retained ''MEM,T'' 8 ex_mem_bad = [[''MEM'', ''T0001'', ''n/a'', ''0'', ''0'', ''0'', ''0'', ''0'']]
   \<and> calculate_memory_metrics decimal (retained ''MEM,T'' 8 ex_mem_bad) Linux
       = [Num 0, Num 0, Num 0, Num 0, Num 0]
   \<and> calculate_memory_metrics decimal (retained ''MEM,T'' 8 ex_mem_bad) Linux ! 0
       \<noteq> Num (real (length (retained ''MEM,T'' 8 ex_mem_bad)))"
proof -
  have r: "retained ''MEM,T'' 8 ex_mem_bad = [[''MEM'', ''T0001'', ''n/a'', ''0'', ''0'', ''0'', ''0'', ''0'']]"
    by code_simp
  have c: "calculate_memory_metrics decimal (retained ''MEM,T'' 8 ex_mem_bad) Linux
       = [Num 0, Num 0, Num 0, Num 0, Num 0]"
    by code_simp
  show ?thesis unfolding c unfolding r by simp
qed

text \<open>
  C7 at three Linux records, each with a difference of 2048, and at the retained record
  whose column 2 is not a number.
\<close>

theorem memory_metrics_in_gib_witness:
  "ex_mem_const \<noteq> []
   \<and> list_all (\<lambda>row. 8 \<le> length row \<and> decimal (row ! 2) \<noteq> None \<and> decimal (row ! 7) \<noteq> None
                  \<and> mem_used decimal Linux row = 2048) ex_mem_const
   \<and> calculate_memory_metrics decimal ex_mem_const Linux = [Num 3, Num 2, Num 2, Num 2, Num 2]
   \<and> list_ex (\<lambda>row. 2 < length row \<and> decimal (row ! 2) = None) (retained ''MEM,T'' 8 ex_mem_bad)
   \<and> calculate_memory_metrics decimal (retained ''MEM,T'' 8 ex_mem_bad) Linux = zeros 5"
proof -
  have n: "ex_mem_const \<noteq> []" and l: "length ex_mem_const = 3"
    by (simp_all add: ex_mem_const_rows)
  have a: "list_all (\<lambda>row. 8 \<le> length row \<and> decimal (row ! 2) \<noteq> None \<and> decimal (row ! 7) \<noteq> None
                  \<and> mem_used decimal Linux row = 2048) ex_mem_const"
    by (simp add: ex_mem_const_rows ex_decimals mem_used_def)
  from a have 1: "\<forall>row\<in>set ex_mem_const. 8 \<le> length row"
    and 2: "\<forall>row\<in>set ex_mem_const. \<forall>k\<in>(if Linux = AIX then {6, 4} else {2, 7}). decimal (row ! k) \<noteq> None"
    and 3: "\<forall>row\<in>set ex_mem_const. mem_used decimal Linux row = 2048"
    by (simp_all add: list_all_iff)
  from memory_metrics_in_gib[of ex_mem_const Linux decimal] n 1 2 3
  have g: "calculate_memory_metrics decimal ex_mem_const Linux
          = [Num (real (length ex_mem_const)), Num 2, Num 2, Num 2, Num 2]"
    by blast
  have b: "list_ex (\<lambda>row. 2 < length row \<and> decimal (row ! 2) = None) (retained ''MEM,T'' 8 ex_mem_bad)"
    by code_simp
  then have "\<exists>row\<in>set (retained ''MEM,T'' 8 ex_mem_bad). \<exists>k\<in>(if Linux = AIX then {6, 4} else {2, 7}).
                          k < length row \<and> decimal (row ! k) = None"
    by (auto simp: list_ex_iff)
  with memory_metrics_in_gib[of "retained ''MEM,T'' 8 ex_mem_bad" Linux decimal]
  have z: "calculate_memory_metrics decimal (retained ''MEM,T'' 8 ex_mem_bad) Linux = zeros 5"
    by blast
  from n a l g b z show ?thesis by simp
qed

text \<open>
  C8, amended. When the scan keeps no LPAR record, the file has no result and the loop
  of \<open>main\<close> adds no row for it. When no line that goes to the header extractor is
  malformed, the last message printed is the warning that no LPAR data was found; when
  such a line is malformed, the last message is the error of the IndexError it raises,
  and that warning is not printed.
\<close>

theorem no_lpar_no_row:
  assumes "retained ''LPAR,T'' 14 lines = []"
  shows "snd (process_nmon_file tf path (Some lines)) = None
       \<and> file_rows tf (filename, Some lines) = []
       \<and> all_results tf (before @ [(filename, Some lines)] @ after)
           = all_results tf before @ all_results tf after
       \<and> (if \<exists>line\<in>set lines. header_line line \<and> malformed_header line
          then last (fst (process_nmon_file tf path (Some lines)))
                 = Err (''Error processing '' @ path @ '': '') IndexError
               \<and> Warn (''Warning: No LPAR data found in '' @ path)
                   \<notin> set (fst (process_nmon_file tf path (Some lines)))
          else last (fst (process_nmon_file tf path (Some lines)))
                 = Warn (''Warning: No LPAR data found in '' @ path))"
proof -
  have n: "snd (process_nmon_file tf p (Some lines)) = None" for p
    using assms by (simp add: process_None_iff)
  have f: "file_rows tf (filename, Some lines) = []"
    by (simp add: file_rows_def n)
  have a: "all_results tf (before @ [(filename, Some lines)] @ after)
           = all_results tf before @ all_results tf after"
    by (simp add: all_results_def f)
  show ?thesis using n f a no_lpar_messages[OF assms, of tf path] by simp
qed

text \<open>
  C8 as stated fails: this file has no LPAR line, its one header line has the marker
  \<open>lparname\<close> and two fields, and all that is printed is the error.
\<close>

theorem no_lpar_warning_counterexample:
  "retained ''LPAR,T'' 14 ex_header_only = []
   \<and> process_nmon_file decimal ''./NMON_Reports/c.nmon'' (Some ex_header_only)
       = ([Err ''Error processing ./NMON_Reports/c.nmon: '' IndexError], None)"
proof -
  have "retained ''LPAR,T'' 14 ex_header_only = []"
    by code_simp
  moreover have "process_nmon_file decimal ''./NMON_Reports/c.nmon'' (Some ex_header_only)
       = ([Err ''Error processing ./NMON_Reports/c.nmon: '' IndexError], None)"
    by code_simp
  ultimately show ?thesis by simp
qed

text \<open>
  C8 at a file whose only LPAR line has four fields, in a directory of two files, and at
  the file of one malformed header line.
\<close>

theorem no_lpar_no_row_witness:
  "retained ''LPAR,T'' 14 ex_no_lpar = []
   \<and> \<not> list_ex (\<lambda>line. header_line line \<and> malformed_header line) ex_no_lpar
   \<and> process_nmon_file decimal ''./NMON_Reports/b.nmon'' (Some ex_no_lpar)
       = ([Warn ''Warning: LPAR line has unexpected format: LPAR,T0001,10,2'',
           Warn ''Warning: No LPAR data found in ./NMON_Reports/b.nmon''], None)
   \<and> last (fst (process_nmon_file decimal ''./NMON_Reports/b.nmon'' (Some ex_no_lpar)))
       = Warn ''Warning: No LPAR data found in ./NMON_Reports/b.nmon''
   \<and> all_results decimal [(''a.nmon'', Some ex_late_aix), (''b.nmon'', Some ex_no_lpar)]
       = all_results decimal [(''a.nmon'', Some ex_late_aix)]
   \<and> length (all_results decimal [(''a.nmon'', Some ex_late_aix)]) = 1
   \<and> retained ''LPAR,T'' 14 ex_header_only = []
   \<and> list_ex (\<lambda>line. header_line line \<and> malformed_header line) ex_header_only
   \<and> last (fst (process_nmon_file decimal ''./NMON_Reports/c.nmon'' (Some ex_header_only)))
       = Err ''Error processing ./NMON_Reports/c.nmon: '' IndexError"
proof -
  have h: "retained ''LPAR,T'' 14 ex_no_lpar = []"
    by code_simp
  have c: "\<not> list_ex (\<lambda>line. header_line line \<and> malformed_header line) ex_no_lpar"
    by code_simp
  have p: "process_nmon_file decimal ''./NMON_Reports/b.nmon'' (Some ex_no_lpar)
       = ([Warn ''Warning: LPAR line has unexpected format: LPAR,T0001,10,2'',
           Warn ''Warning: No LPAR data found in ./NMON_Reports/b.nmon''], None)"
    by code_simp
  have l: "length (all_results decimal [(''a.nmon'', Some ex_late_aix)]) = 1"
    by code_simp
  have h2: "retained ''LPAR,T'' 14 ex_header_only = []"
    by code_simp
  have c2: "list_ex (\<lambda>line. header_line line \<and> malformed_header line) ex_header_only"
    by code_simp
  from c have c': "\<not> (\<exists>line\<in>set ex_no_lpar. header_line line \<and> malformed_header line)"
    by (simp add: list_ex_iff)
  from c2 have c2': "\<exists>line\<in>set ex_header_only. header_line line \<and> malformed_header line"
    by (simp add: list_ex_iff)
  note t = no_lpar_no_row[OF h, of decimal "''./NMON_Reports/b.nmon''" "''b.nmon''"
      "[(''a.nmon'', Some ex_late_aix)]" "[]"]
  from t have r: "all_results decimal [(''a.nmon'', Some ex_late_aix), (''b.nmon'', Some ex_no_lpar)]
       = all_results decimal [(''a.nmon'', Some ex_late_aix)]"
    by (simp add: all_results_def)
  from t c' have w: "last (fst (process_nmon_file decimal ''./NMON_Reports/b.nmon'' (Some ex_no_lpar)))
       = Warn ''Warning: No LPAR data found in ./NMON_Reports/b.nmon''"
    by simp
  from no_lpar_no_row[OF h2, of decimal "''./NMON_Reports/c.nmon''"] c2'
  have e: "last (fst (process_nmon_file decimal ''./NMON_Reports/c.nmon'' (Some ex_header_only)))
       = Err ''Error processing ./NMON_Reports/c.nmon: '' IndexError"
    by simp
  from h c p w r l h2 c2 e show ?thesis by blast
qed

text \<open>
  C9. When the scan keeps no PROC record and the file has a result, the run queue
  entry of the result (index 18) is \<open>nan\<close>, which is not the number zero.
\<close>

theorem empty_proc_gives_nan:
  assumes "retained ''PROC,T'' 3 lines = []"
    and "snd (process_nmon_file tf path (Some lines)) = Some row"
  shows "row ! 18 = Flt NaN \<and> row ! 18 \<noteq> Flt (Num 0)
       \<and> run_queue tf (retained ''PROC,T'' 3 lines) = Inr NaN"
proof -
  from assms(2) obtain info rq p where
    rq: "run_queue tf (retained ''PROC,T'' 3 lines) = Inr rq"
    and row: "row = file_result info
                     (metrics_func (file_os lines) tf (retained ''LPAR,T'' 14 lines)) p rq
                     (calculate_memory_metrics tf (retained ''MEM,T'' 8 lines) (file_os lines))"
    by (rule process_Some)
  from rq assms(1) have "rq = NaN" by (simp add: run_queue_def)
  then show ?thesis using assms(1) by (simp add: row file_result_parts run_queue_def)
qed

text \<open>
  C9 at a file without PROC lines, beside a file whose one PROC record measures zero.
\<close>

theorem empty_proc_gives_nan_witness:
  "retained ''PROC,T'' 3 ex_late_aix = []
   \<and> map_option (\<lambda>row. row ! 18) (snd (process_nmon_file decimal ''a.nmon'' (Some ex_late_aix)))
       = Some (Flt NaN)
   \<and> map_option (\<lambda>row. row ! 18) (snd (process_nmon_file decimal ''a.nmon'' (Some ex_proc_zero)))
       = Some (Flt (Num 0))"
proof -
  have h: "retained ''PROC,T'' 3 ex_late_aix = []"
    by code_simp
  have s: "snd (process_nmon_file decimal ''a.nmon'' (Some ex_late_aix)) \<noteq> None"
    by code_simp
  then obtain row where row: "snd (process_nmon_file decimal ''a.nmon'' (Some ex_late_aix)) = Some row"
    by blast
  have z: "map_option (\<lambda>row. row ! 18) (snd (process_nmon_file decimal ''a.nmon'' (Some ex_proc_zero)))
       = Some (Flt (Num 0))"
    by code_simp
  from empty_proc_gives_nan[OF h row] have "row ! 18 = Flt NaN" by blast
  with h row z show ?thesis by simp
qed

text \<open>
  C10. When no record of the frame has 22 fields, the Linux reducer raises and returns
  the 12 zeros; with 14 fields in every record and numbers in the fields 2 to 13, the
  exception is the KeyError of a missing column. A file without the AIX signature whose
  retained LPAR records are all shorter than 22 fields has the 12 zeros as the metrics
  of its result.
\<close>

theorem linux_reducer_needs_22_fields:
  "((\<forall>row\<in>set data. length row < 22)
      \<longrightarrow> (\<exists>e. linux_metrics_try tf data = Inl e) \<and> calculate_linux_metrics tf data = zeros 12)
   \<and> ((\<forall>row\<in>set data. length row < 22) \<and> data \<noteq> [] \<and> (\<forall>row\<in>set data. 14 \<le> length row)
        \<and> (\<forall>row\<in>set data. \<forall>k\<in>{2..<14}. tf (row ! k) \<noteq> None)
      \<longrightarrow> linux_metrics_try tf data = Inl KeyError)
   \<and> ((\<forall>line\<in>set lines. \<not> startswith ''AAA,AIX'' line)
        \<and> (\<forall>row\<in>set (retained ''LPAR,T'' 14 lines). length row < 22)
        \<and> snd (process_nmon_file tf path (Some lines)) = Some result
      \<longrightarrow> take 12 (drop 5 result) = map Flt (zeros 12))"
proof -
  have 1: "(\<exists>e. linux_metrics_try tf data = Inl e) \<and> calculate_linux_metrics tf data = zeros 12"
    if "\<forall>row\<in>set data. length row < 22" for data
    using short_frame_linux[OF that, of tf] by (auto simp: calculate_linux_metrics_def)
  have 2: "linux_metrics_try tf data = Inl KeyError"
    if s: "\<forall>row\<in>set data. length row < 22" and n: "data \<noteq> []"
      and w: "\<forall>row\<in>set data. 14 \<le> length row" and ok: "\<forall>row\<in>set data. \<forall>k\<in>{2..<14}. tf (row ! k) \<noteq> None"
  proof -
    have c: "k < ncols data" if "k < 14" for k
      using n w that by (cases data) (auto simp: ncols_less_iff)
    have o: "col_ok tf data k" if "2 \<le> k" "k < 14" for k
      using ok that by (auto simp: col_ok_def)
    have "\<not> 21 < ncols data" using s by (auto simp: ncols_less_iff)
    then show ?thesis
      by (simp add: linux_metrics_try_def float_col_cases c o)
  qed
  have 3: "take 12 (drop 5 result) = map Flt (zeros 12)"
    if a: "\<forall>line\<in>set lines. \<not> startswith ''AAA,AIX'' line"
      and s: "\<forall>row\<in>set (retained ''LPAR,T'' 14 lines). length row < 22"
      and r: "snd (process_nmon_file tf path (Some lines)) = Some result"
  proof -
    have os: "file_os lines = Linux" using a by (simp add: file_os_def)
    from r obtain info rq p where "result = file_result info
             (metrics_func (file_os lines) tf (retained ''LPAR,T'' 14 lines)) p rq
             (calculate_memory_metrics tf (retained ''MEM,T'' 8 lines) (file_os lines))"
      by (rule process_Some)
    then show ?thesis using 1[OF s]
      by (simp add: file_result_parts os metrics_func_def)
  qed
  show ?thesis using 1 2 3 by blast
qed

text \<open>C10 at a file of two LPAR lines of 14 numeric fields.\<close>

theorem linux_reducer_needs_22_fields_witness:
  "list_all (\<lambda>line. \<not> startswith ''AAA,AIX'' line) ex_linux
   \<and> retained ''LPAR,T'' 14 ex_linux \<noteq> []
   \<and> list_all (\<lambda>row. length row = 14 \<and> list_all (\<lambda>k. decimal (row ! k) \<noteq> None) [2..<14])
         (retained ''LPAR,T'' 14 ex_linux)
   \<and> linux_metrics_try decimal (retained ''LPAR,T'' 14 ex_linux) = Inl KeyError
   \<and> calculate_linux_metrics decimal (retained ''LPAR,T'' 14 ex_linux) = zeros 12
   \<and> (\<exists>result. snd (process_nmon_file decimal ''a.nmon'' (Some ex_linux)) = Some result
         \<and> take 12 (drop 5 result) = map Flt (zeros 12))"
proof -
  have a: "list_all (\<lambda>line. \<not> startswith ''AAA,AIX'' line) ex_linux"
    by code_simp
  have n: "retained ''LPAR,T'' 14 ex_linux \<noteq> []"
    by code_simp
  have w: "list_all (\<lambda>row. length row = 14 \<and> list_all (\<lambda>k. decimal (row ! k) \<noteq> None) [2..<14])
         (retained ''LPAR,T'' 14 ex_linux)"
    by code_simp
  have r: "snd (process_nmon_file decimal ''a.nmon'' (Some ex_linux)) \<noteq> None"
    by code_simp
  then obtain result where res: "snd (process_nmon_file decimal ''a.nmon'' (Some ex_linux)) = Some result"
    by blast
  from a have a': "\<forall>line\<in>set ex_linux. \<not> startswith ''AAA,AIX'' line"
    by (simp add: list_all_iff)
  from w have s: "\<forall>row\<in>set (retained ''LPAR,T'' 14 ex_linux). length row < 22"
    and l: "\<forall>row\<in>set (retained ''LPAR,T'' 14 ex_linux). 14 \<le> length row"
    by (simp_all add: list_all_iff)
  from w have ok: "\<forall>row\<in>set (retained ''LPAR,T'' 14 ex_linux). \<forall>k\<in>{2..<14}. decimal (row ! k) \<noteq> None"
    unfolding list_all_iff set_upt by blast
  from linux_reducer_needs_22_fields[of "retained ''LPAR,T'' 14 ex_linux" decimal ex_linux "''a.nmon''" result]
    a' n s l ok res
  have "linux_metrics_try decimal (retained ''LPAR,T'' 14 ex_linux) = Inl KeyError
   \<and> calculate_linux_metrics decimal (retained ''LPAR,T'' 14 ex_linux) = zeros 12
   \<and> take 12 (drop 5 result) = map Flt (zeros 12)"
    by blast
  with a n w res show ?thesis by blast
qed

end
